theory Spec2Isabelle
  imports Main
begin

section \<open>The bounded concurrency gate (class \<open>Semaphore\<close>)\<close>

text \<open>
  The class holds a permit counter and an array of \<open>resolve\<close> callbacks, one per suspended
  \<open>acquire()\<close> call. A callback is identified here by a value of type \<open>'a\<close> (the task that
  waits for it). \<open>permits\<close> is a JavaScript number; the gate is built from an integer
  \<open>threadCount\<close>, so it is an \<open>int\<close>.
\<close>

record 'a semaphore =
  permits :: int
  queue :: "'a list"

definition Semaphore :: "int \<Rightarrow> 'a semaphore" where
  "Semaphore n = \<lparr>permits = n, queue = []\<rparr>"

text \<open>
  \<open>acquire()\<close>: the promise executor runs at once. With a permit left it takes one and
  resolves (the flag is \<open>True\<close>); otherwise it pushes its callback at the end of the queue and
  the caller stays suspended.
\<close>

definition acquire :: "'a \<Rightarrow> 'a semaphore \<Rightarrow> 'a semaphore \<times> bool" where
  "acquire resolve s =
     (if permits s > 0 then (s\<lparr>permits := permits s - 1\<rparr>, True)
      else (s\<lparr>queue := queue s @ [resolve]\<rparr>, False))"

text \<open>
  \<open>release()\<close>: the permit is returned first; if a callback waits, the first of the queue is
  shifted out, the permit is taken again for it, and it is called. The result names the
  callback that was called, if any.
\<close>

definition release :: "'a semaphore \<Rightarrow> 'a semaphore \<times> 'a option" where
  "release s =
     (let s1 = s\<lparr>permits := permits s + 1\<rparr> in
      case queue s1 of
        [] \<Rightarrow> (s1, None)
      | resolve # rest \<Rightarrow> (s1\<lparr>queue := rest, permits := permits s1 - 1\<rparr>, Some resolve))"

definition available :: "'a semaphore \<Rightarrow> int" where
  "available s = permits s"

definition waiting :: "'a semaphore \<Rightarrow> nat" where
  "waiting s = length (queue s)"

subsection \<open>Interleavings of acquire and release\<close>


record 'a gate =
  sem :: "'a semaphore"
  holders :: "'a list"








lemma release_oldest:
  "queue s = w # ws \<Longrightarrow> release s = (s\<lparr>queue := ws\<rparr>, Some w)"
  by (simp add: release_def Let_def)








section \<open>JavaScript values\<close>

text \<open>
  Strings are \<open>string\<close>: the bytes of the text in UTF-8, which for ASCII text are its
  characters. A number is kept as its canonical decimal rendering (what \<open>String(n)\<close> gives:
  \<open>''0''\<close>, \<open>''1.5''\<close>, \<open>''NaN''\<close>), so that no floating-point arithmetic is needed; the
  functions that produce numbers from text (\<open>parseFloat\<close>, \<open>parseInt\<close>) are parameters of
  the model. An object is the list of its own enumerable properties in enumeration order,
  with distinct keys.
\<close>

datatype jsval =
    JUndefined
  | JNull
  | JBool bool
  | JNum string
  | JStr string
  | JArr "jsval list"
  | JObj "(string \<times> jsval) list"

type_synonym jsobj = "(string \<times> jsval) list"

text \<open>\<open>obj[key]\<close> and \<open>obj[key] = value\<close> (a new key goes last, an old one keeps its place).\<close>

definition obj_get :: "jsobj \<Rightarrow> string \<Rightarrow> jsval" where
  "obj_get obj k = (case map_of obj k of None \<Rightarrow> JUndefined | Some v \<Rightarrow> v)"

fun obj_set :: "(string \<times> 'v) list \<Rightarrow> string \<Rightarrow> 'v \<Rightarrow> (string \<times> 'v) list" where
  "obj_set [] k v = [(k, v)]"
| "obj_set ((k', v') # rest) k v =
     (if k' = k then (k, v) # rest else (k', v') # obj_set rest k v)"

text \<open>Truthiness (\<open>if (v)\<close>, \<open>!v\<close>, \<open>v || d\<close>).\<close>

fun truthy :: "jsval \<Rightarrow> bool" where
  "truthy JUndefined = False"
| "truthy JNull = False"
| "truthy (JBool b) = b"
| "truthy (JNum n) = (n \<noteq> ''0'' \<and> n \<noteq> ''NaN'')"
| "truthy (JStr s) = (s \<noteq> [])"
| "truthy (JArr xs) = True"
| "truthy (JObj kvs) = True"

text \<open>\<open>Array.prototype.join\<close> on strings, and decimal numerals for indices and status codes.\<close>

fun join :: "string \<Rightarrow> string list \<Rightarrow> string" where
  "join sep [] = []"
| "join sep [x] = x"
| "join sep (x # y # ys) = x @ sep @ join sep (y # ys)"

fun show_nat :: "nat \<Rightarrow> string" where
  "show_nat n =
     (if n < 10 then [''0123456789'' ! n]
      else show_nat (n div 10) @ [''0123456789'' ! (n mod 10)])"

declare show_nat.simps [simp del]

definition show_int :: "int \<Rightarrow> string" where
  "show_int i = (if i < 0 then CHR ''-'' # show_nat (nat (- i)) else show_nat (nat i))"

text \<open>
  \<open>String(v)\<close>, also what a template literal and \<open>v.toString()\<close> (for a value that has
  the method) give. An array joins its elements with commas, \<open>null\<close> and \<open>undefined\<close>
  elements as empty strings.
\<close>

fun js_toString :: "jsval \<Rightarrow> string" where
  "js_toString JUndefined = ''undefined''"
| "js_toString JNull = ''null''"
| "js_toString (JBool b) = (if b then ''true'' else ''false'')"
| "js_toString (JNum n) = n"
| "js_toString (JStr s) = s"
| "js_toString (JArr xs) =
     join '','' (map (\<lambda>x. if x = JUndefined \<or> x = JNull then [] else js_toString x) xs)"
| "js_toString (JObj kvs) = ''[object Object]''"

definition array_join :: "string \<Rightarrow> jsval list \<Rightarrow> string" where
  "array_join sep xs =
     join sep (map (\<lambda>x. if x = JUndefined \<or> x = JNull then [] else js_toString x) xs)"

text \<open>
  A value thrown by the platform (\<open>fetch\<close>, the XML parser, a call of something that is not
  a function): an \<open>Error\<close> with its name and message, or a value that is not an \<open>Error\<close>,
  with its \<open>String(...)\<close>.
\<close>

datatype js_exn = JsError string string | JsThrown string

section \<open>The XML normalizer (class \<open>XMLProcessor\<close>)\<close>

text \<open>
  The guard \<open>obj.hasOwnProperty(key)\<close> of the \<open>for ... in\<close> loop. The method is looked up on
  \<open>obj\<close> itself first: when the data has an own property named \<open>hasOwnProperty\<close>, its value
  (data, never a function) is what gets called, and the call throws a \<open>TypeError\<close>. Otherwise
  the built-in method answers whether \<open>key\<close> is an own property.
\<close>

definition hasOwnProperty :: "jsobj \<Rightarrow> string \<Rightarrow> js_exn + bool" where
  "hasOwnProperty obj key =
     (if ''hasOwnProperty'' \<in> set (map fst obj)
      then Inl (JsError ''TypeError'' ''obj.hasOwnProperty is not a function'')
      else Inr (key \<in> set (map fst obj)))"

text \<open>
  The object \<open>result\<close> that \<open>flattenXMLPaths\<close> fills is created by \<open>{}\<close>, so it inherits the
  accessor \<open>__proto__\<close> of \<open>Object.prototype\<close>. \<open>result[newKey] = value\<close> with the key
  \<open>__proto__\<close> runs the setter of that accessor and creates no own property: \<open>null\<close> or an
  array (the values of type \<open>object\<close> that reach the assignment) becomes the prototype of
  \<open>result\<close>, and any other value is ignored. Once the prototype is \<open>null\<close> the accessor is
  out of reach and \<open>__proto__\<close> is a key like any other; with an array as prototype it is
  still inherited. So the model keeps, beside the own properties, whether the prototype has
  been set to \<open>null\<close>. Every other key is set as usual: no property that \<open>result\<close> can
  inherit is read-only.
\<close>

record result_object =
  own :: jsobj
  null_prototype :: bool

definition new_object :: result_object where
  "new_object = \<lparr>own = [], null_prototype = False\<rparr>"

definition assign_property :: "result_object \<Rightarrow> string \<Rightarrow> jsval \<Rightarrow> result_object" where
  "assign_property result newKey v =
     (if newKey = ''__proto__'' \<and> \<not> null_prototype result
      then (if v = JNull then result\<lparr>null_prototype := True\<rparr> else result)
      else result\<lparr>own := obj_set (own result) newKey v\<rparr>)"

text \<open>
  \<open>flattenXMLPaths(obj, prefix, result)\<close>. \<open>flattenXMLPaths_from obj remaining prefix result\<close>
  is the \<open>for ... in\<close> loop over the own properties of \<open>obj\<close> from the properties \<open>remaining\<close>
  on; \<open>result\<close>, the one object that all the calls write to, is passed along. A value that
  is truthy, of type \<open>object\<close> and not an array is a \<open>JObj\<close>; the loop recurses into it with
  the new key as prefix. Every other value, arrays and \<open>null\<close> included, is assigned under
  the new key. An exception ends the loop and every call around it.
\<close>

fun is_object :: "jsval \<Rightarrow> bool" where
  "is_object (JObj kvs) = True"
| "is_object v = False"

fun flattenXMLPaths_from ::
  "jsobj \<Rightarrow> jsobj \<Rightarrow> string \<Rightarrow> result_object \<Rightarrow> js_exn + result_object" where
  "flattenXMLPaths_from obj [] prefix result = Inr result"
| "flattenXMLPaths_from obj ((key, value) # remaining) prefix result =
     (case hasOwnProperty obj key of
        Inl e \<Rightarrow> Inl e
      | Inr False \<Rightarrow> flattenXMLPaths_from obj remaining prefix result
      | Inr True \<Rightarrow>
          (let newKey = (if prefix \<noteq> [] then prefix @ ''__'' @ key else key) in
           case value of
             JObj inner \<Rightarrow>
               (case flattenXMLPaths_from inner inner newKey result of
                  Inl e \<Rightarrow> Inl e
                | Inr result' \<Rightarrow> flattenXMLPaths_from obj remaining prefix result')
           | _ \<Rightarrow> flattenXMLPaths_from obj remaining prefix (assign_property result newKey value)))"

definition flattenXMLPaths :: "jsobj \<Rightarrow> string \<Rightarrow> result_object \<Rightarrow> js_exn + result_object" where
  "flattenXMLPaths obj prefix result = flattenXMLPaths_from obj obj prefix result"

text \<open>
  The properties \<open>for ... in\<close> enumerates on a value: those of an object, the indices of an
  array, the indices of a string (one per character; for text outside ASCII JavaScript
  counts UTF-16 units, which changes only these numeric keys), none on the other primitives.
  An array or a string has no own property named \<open>hasOwnProperty\<close>.
\<close>

fun own_entries :: "jsval \<Rightarrow> jsobj" where
  "own_entries (JObj kvs) = kvs"
| "own_entries (JArr xs) = zip (map show_nat [0..<length xs]) xs"
| "own_entries (JStr s) = zip (map show_nat [0..<length s]) (map (\<lambda>c. JStr [c]) s)"
| "own_entries v = []"

text \<open>
  \<open>this.flattenXMLPaths(entry)\<close>, with the default prefix and a fresh result, as the field
  mapper sees the outcome: the mapper reads properties by name, and none of the names it
  reads is a property of arrays or of \<open>Object.prototype\<close>, so it reads own properties only.
\<close>

definition flattenEntry :: "jsval \<Rightarrow> js_exn + jsobj" where
  "flattenEntry entry =
     (case flattenXMLPaths (own_entries entry) [] new_object of
        Inl e \<Rightarrow> Inl e
      | Inr result \<Rightarrow> Inr (own result))"

text \<open>A mapping is flat when none of its values is a nested (non-array) object.\<close>

definition flat :: "jsobj \<Rightarrow> bool" where
  "flat obj \<longleftrightarrow> (\<forall>(k, v) \<in> set obj. \<not> is_object v)"

lemma obj_set_fresh: "k \<notin> fst ` set acc \<Longrightarrow> obj_set acc k v = acc @ [(k, v)]"
  by (induction acc) auto

lemma flatten_flat_acc:
  "flat remaining \<Longrightarrow> distinct (map fst (own acc @ remaining)) \<Longrightarrow> set remaining \<subseteq> set obj \<Longrightarrow>
   ''hasOwnProperty'' \<notin> set (map fst obj) \<Longrightarrow> ''__proto__'' \<notin> set (map fst remaining) \<Longrightarrow>
   flattenXMLPaths_from obj remaining [] acc = Inr (acc\<lparr>own := own acc @ remaining\<rparr>)"
proof (induction remaining arbitrary: acc)
  case Nil
  then show ?case by simp
next
  case (Cons kv remaining)
  obtain k v where kv: "kv = (k, v)" by (cases kv)
  let ?acc = "acc\<lparr>own := own acc @ [(k, v)]\<rparr>"
  from Cons.prems kv have nobj: "\<not> is_object v" and fl: "flat remaining"
    by (auto simp: flat_def)
  from Cons.prems kv have fresh: "k \<notin> fst ` set (own acc)"
    by auto
  from Cons.prems kv have dist: "distinct (map fst (own ?acc @ remaining))"
    by auto
  from Cons.prems(3) kv have "(k, v) \<in> set obj"
    by simp
  then have "fst (k, v) \<in> fst ` set obj"
    by (rule imageI)
  then have "k \<in> set (map fst obj)"
    by simp
  with Cons.prems(4) have guard: "hasOwnProperty obj k = Inr True"
    unfolding hasOwnProperty_def by simp
  from Cons.prems(5) kv have k: "k \<noteq> ''__proto__''"
    by auto
  from nobj guard have "flattenXMLPaths_from obj ((k, v) # remaining) [] acc =
      flattenXMLPaths_from obj remaining [] (assign_property acc k v)"
    by (cases v) simp_all
  also have "\<dots> = flattenXMLPaths_from obj remaining [] ?acc"
    using fresh k by (simp add: obj_set_fresh assign_property_def)
  also have "\<dots> = Inr (?acc\<lparr>own := own ?acc @ remaining\<rparr>)"
    using Cons.IH [OF fl dist _ Cons.prems(4)] Cons.prems(3,5) by simp
  finally show ?case
    using kv by simp
qed

text \<open>
  A flat mapping (with distinct keys) none of whose keys is \<open>hasOwnProperty\<close> or \<open>__proto__\<close>
  comes back as it is: the same keys in the same order with the same values, no prefix
  added, on an object whose prototype has not been touched.
\<close>

lemma flattenXMLPaths_flat_plain_keys:
  assumes "flat obj" and "distinct (map fst obj)"
    and "''hasOwnProperty'' \<notin> set (map fst obj)" and "''__proto__'' \<notin> set (map fst obj)"
  shows "flattenXMLPaths obj [] new_object = Inr \<lparr>own = obj, null_prototype = False\<rparr>"
    and "flattenEntry (JObj obj) = Inr obj"
proof -
  show "flattenXMLPaths obj [] new_object = Inr \<lparr>own = obj, null_prototype = False\<rparr>"
    using flatten_flat_acc [of obj new_object obj] assms by (simp add: flattenXMLPaths_def new_object_def)
  then show "flattenEntry (JObj obj) = Inr obj"
    by (simp add: flattenEntry_def)
qed

text \<open>
  Claim C9. On a mapping that is already flat (no value is a nested non-array object) the
  output of \<open>flattenXMLPaths\<close> should be the mapping itself. The code falls short of this on
  two keys. For the flat mapping \<open>{hasOwnProperty: 'x', title: 'Award'}\<close> the guard calls the
  string \<open>'x'\<close> and the function throws a \<open>TypeError\<close> instead of returning the mapping. For
  the flat mapping with the own keys \<open>__proto__\<close> and \<open>title\<close> the assignment to
  \<open>result['__proto__']\<close> creates no property, and the output has the key \<open>title\<close> only. On
  a flat mapping without these two keys, like the last one below, the output is the input
  (\<open>flattenXMLPaths_flat_plain_keys\<close>).
\<close>

theorem flattenXMLPaths_shadowed_guard:
  "flattenXMLPaths [(''hasOwnProperty'', JStr ''x''), (''title'', JStr ''Award'')] [] new_object =
     Inl (JsError ''TypeError'' ''obj.hasOwnProperty is not a function'') \<and>
   flattenEntry (JObj [(''hasOwnProperty'', JStr ''x''), (''title'', JStr ''Award'')]) =
     Inl (JsError ''TypeError'' ''obj.hasOwnProperty is not a function'') \<and>
   flattenXMLPaths [(''__proto__'', JStr ''x''), (''title'', JStr ''Award'')] [] new_object =
     Inr \<lparr>own = [(''title'', JStr ''Award'')], null_prototype = False\<rparr> \<and>
   flattenEntry (JObj [(''__proto__'', JStr ''x''), (''title'', JStr ''Award'')]) =
     Inr [(''title'', JStr ''Award'')] \<and>
   flattenEntry (JObj [(''title'', JStr ''Award''), (''link__href'', JNull),
       (''category'', JArr [JObj [(''term'', JStr ''x'')]]), (''n'', JNum ''7'')]) =
     Inr [(''title'', JStr ''Award''), (''link__href'', JNull),
       (''category'', JArr [JObj [(''term'', JStr ''x'')]]), (''n'', JNum ''7'')]"
  by code_simp

section \<open>Errors and the JavaScript runtime\<close>

text \<open>
  The \<open>GovDataError\<close> classes this code throws, one constructor per class with the fields
  the class adds: \<open>FPDSRequestError(message, statusCode)\<close>,
  \<open>NetworkError(message, originalError)\<close>, \<open>ValidationError(parameter, value, suggestions)\<close>,
  \<open>ParseError(message)\<close>. \<open>ThrownUndefined\<close> is \<open>throw lastError\<close> with \<open>lastError\<close> never
  assigned, and \<open>Uncaught x\<close> is a value thrown by the platform that no \<open>catch\<close> has wrapped
  in one of these classes.
\<close>

datatype error =
    FPDSRequestError string int
  | NetworkError string "js_exn option"
  | ValidationError string string "string list"
  | ParseError string
  | ThrownUndefined
  | Uncaught js_exn

text \<open>
  Library functions that are not code of this repository are parameters of the model:
  the SHA-256 hex digest of \<open>crypto\<close>, \<open>parseFloat\<close> and \<open>parseInt(_, 10)\<close> (their results
  as canonical number renderings), and \<open>XMLParser.parse\<close> of fast-xml-parser.
\<close>

record runtime =
  sha256_hex :: "string \<Rightarrow> string"
  parseFloat :: "string \<Rightarrow> string"
  parseInt10 :: "string \<Rightarrow> string"
  xml_parse :: "string \<Rightarrow> js_exn + jsval"

section \<open>Validators (\<open>utils/validators\<close>)\<close>

definition parseFloatSafe :: "runtime \<Rightarrow> jsval \<Rightarrow> jsval" where
  "parseFloatSafe rt v =
     (if \<not> truthy v then JNum ''0''
      else let parsed = parseFloat rt (js_toString v)
           in if parsed = ''NaN'' then JNum ''0'' else JNum parsed)"

definition parseIntSafe :: "runtime \<Rightarrow> jsval \<Rightarrow> jsval" where
  "parseIntSafe rt v =
     (if \<not> truthy v then JNum ''0''
      else let parsed = parseInt10 rt (js_toString v)
           in if parsed = ''NaN'' then JNum ''0'' else JNum parsed)"

fun convertBooleanToString :: "jsval \<Rightarrow> string" where
  "convertBooleanToString (JBool b) = (if b then ''Yes'' else ''No'')"
| "convertBooleanToString v = (if v = JStr ''true'' then ''Yes'' else ''No'')"

subsection \<open>Regular expressions\<close>

text \<open>
  The white space of \<open>String.prototype.trim\<close> and of \<open>\s\<close>, as UTF-8 byte sequences:
  U+0009 to U+000D, U+0020, U+00A0, U+1680, U+2000 to U+200A, U+2028, U+2029, U+202F,
  U+205F, U+3000 and U+FEFF.
\<close>

definition ws_seqs :: "string list" where
  "ws_seqs =
     [[CHR 0x09], [CHR 0x0A], [CHR 0x0B], [CHR 0x0C], [CHR 0x0D], [CHR 0x20],
      [CHR 0xC2, CHR 0xA0],
      [CHR 0xE1, CHR 0x9A, CHR 0x80],
      [CHR 0xE2, CHR 0x80, CHR 0x80], [CHR 0xE2, CHR 0x80, CHR 0x81],
      [CHR 0xE2, CHR 0x80, CHR 0x82], [CHR 0xE2, CHR 0x80, CHR 0x83],
      [CHR 0xE2, CHR 0x80, CHR 0x84], [CHR 0xE2, CHR 0x80, CHR 0x85],
      [CHR 0xE2, CHR 0x80, CHR 0x86], [CHR 0xE2, CHR 0x80, CHR 0x87],
      [CHR 0xE2, CHR 0x80, CHR 0x88], [CHR 0xE2, CHR 0x80, CHR 0x89],
      [CHR 0xE2, CHR 0x80, CHR 0x8A],
      [CHR 0xE2, CHR 0x80, CHR 0xA8], [CHR 0xE2, CHR 0x80, CHR 0xA9],
      [CHR 0xE2, CHR 0x80, CHR 0xAF],
      [CHR 0xE2, CHR 0x81, CHR 0x9F],
      [CHR 0xE3, CHR 0x80, CHR 0x80],
      [CHR 0xEF, CHR 0xBB, CHR 0xBF]]"

fun strip_prefix :: "string \<Rightarrow> string \<Rightarrow> string option" where
  "strip_prefix [] s = Some s"
| "strip_prefix (p # ps) [] = None"
| "strip_prefix (p # ps) (c # cs) = (if p = c then strip_prefix ps cs else None)"

fun strip_any :: "string list \<Rightarrow> string \<Rightarrow> string option" where
  "strip_any [] s = None"
| "strip_any (w # ws) s = (case strip_prefix w s of Some r \<Rightarrow> Some r | None \<Rightarrow> strip_any ws s)"

lemma strip_prefix_length: "strip_prefix w s = Some r \<Longrightarrow> length s = length w + length r"
  by (induction w s rule: strip_prefix.induct) (auto split: if_splits)

lemma strip_any_length:
  "strip_any ws s = Some r \<Longrightarrow> [] \<notin> set ws \<Longrightarrow> length r < length s"
  by (induction ws) (auto split: option.splits dest: strip_prefix_length)

lemma ws_seqs_nonempty: "[] \<notin> set ws_seqs"
  by (simp add: ws_seqs_def)

text \<open>\<open>\s*\<close> at the start of a string: what is left after the leading white space.\<close>

function skip_ws :: "string \<Rightarrow> string" where
  "skip_ws s = (case strip_any ws_seqs s of None \<Rightarrow> s | Some r \<Rightarrow> skip_ws r)"
  by pat_completeness auto
termination
  by (relation "measure length") (auto dest: strip_any_length simp: ws_seqs_nonempty)

declare skip_ws.simps [simp del]

definition is_digit :: "char \<Rightarrow> bool" where
  "is_digit c \<longleftrightarrow> c \<in> set ''0123456789''"

definition is_upper :: "char \<Rightarrow> bool" where
  "is_upper c \<longleftrightarrow> c \<in> set ''ABCDEFGHIJKLMNOPQRSTUVWXYZ''"

definition is_lower :: "char \<Rightarrow> bool" where
  "is_lower c \<longleftrightarrow> c \<in> set ''abcdefghijklmnopqrstuvwxyz''"

text \<open>\<open>\d{n}\<close> and a literal character at the start of a string; the result is the rest.\<close>

definition digits :: "nat \<Rightarrow> string \<Rightarrow> string option" where
  "digits n s = (if n \<le> length s \<and> list_all is_digit (take n s) then Some (drop n s) else None)"

definition expect :: "char \<Rightarrow> string \<Rightarrow> string option" where
  "expect c s = (case s of [] \<Rightarrow> None | x # xs \<Rightarrow> if x = c then Some xs else None)"

text \<open>\<open>\d{4}\/\d{2}\/\d{2}\<close>\<close>

definition date_pattern :: "string \<Rightarrow> string option" where
  "date_pattern s =
     Option.bind (Option.bind (Option.bind (Option.bind (digits 4 s)
       (expect (CHR ''/''))) (digits 2)) (expect (CHR ''/''))) (digits 2)"

text \<open>\<open>/^\[\d{4}\/\d{2}\/\d{2}\s*,\s*\d{4}\/\d{2}\/\d{2}\]$/\<close>\<close>

definition validateDateRange :: "string \<Rightarrow> bool" where
  "validateDateRange dateRange =
     (case Option.bind (Option.bind (Option.bind (expect (CHR ''['') dateRange) date_pattern)
            (\<lambda>s. expect (CHR '','') (skip_ws s))) (\<lambda>s. date_pattern (skip_ws s)) of
        None \<Rightarrow> False
      | Some r \<Rightarrow> r = '']'')"

text \<open>\<open>Boolean(piid && piid.trim().length > 0)\<close>\<close>

definition validatePIID :: "string \<Rightarrow> bool" where
  "validatePIID piid \<longleftrightarrow> piid \<noteq> [] \<and> skip_ws piid \<noteq> []"

text \<open>\<open>/^\d{6}$/\<close>, \<open>/^[A-Z]\d{3}$/\<close> and \<open>/^\d{4}$/\<close>\<close>

definition validateNAICSCode :: "string \<Rightarrow> bool" where
  "validateNAICSCode naics \<longleftrightarrow> digits 6 naics = Some []"

definition validatePSCCode :: "string \<Rightarrow> bool" where
  "validatePSCCode psc \<longleftrightarrow>
     (case psc of [] \<Rightarrow> False | c # cs \<Rightarrow> is_upper c \<and> digits 3 cs = Some [])"

definition validateAgencyCode :: "string \<Rightarrow> bool" where
  "validateAgencyCode agencyCode \<longleftrightarrow> digits 4 agencyCode = Some []"

subsection \<open>Search parameters\<close>

text \<open>
  A value of \<open>FPDSSearchParams\<close>: a string, a list of strings, or \<open>undefined\<close>; the code also
  tests for \<open>null\<close>. The parameters are the list \<open>Object.entries\<close> gives.
\<close>

datatype pval = PUndefined | PNull | PStr string | PList "string list"

type_synonym params = "(string \<times> pval) list"

fun pval_toString :: "pval \<Rightarrow> string" where
  "pval_toString PUndefined = ''undefined''"
| "pval_toString PNull = ''null''"
| "pval_toString (PStr s) = s"
| "pval_toString (PList xs) = join '','' xs"

text \<open>
  One turn of the loop of \<open>validateSearchParams\<close>: the error it throws, if any. Only string
  values are checked.
\<close>

definition validateParam :: "string \<Rightarrow> pval \<Rightarrow> error option" where
  "validateParam key v =
     (case v of
        PStr s \<Rightarrow>
          if key = ''LAST_MOD_DATE'' then
            (if \<not> validateDateRange s
             then Some (ValidationError key s
                    [''Use format: [YYYY/MM/DD, YYYY/MM/DD]'', ''Example: [2022/01/01, 2024/12/31]''])
             else None)
          else if key = ''PIID'' \<or> key = ''REF_IDV_PIID'' then
            (if \<not> validatePIID s
             then Some (ValidationError key s
                    [''Contract ID cannot be empty'', ''Remove any leading/trailing whitespace''])
             else None)
          else if key = ''PRINCIPAL_NAICS_CODE'' \<or> key = ''NAICS_CODE'' then
            (if \<not> validateNAICSCode s
             then Some (ValidationError key s
                    [''NAICS code must be exactly 6 digits'', ''Example: 541511''])
             else None)
          else if key = ''PRODUCT_OR_SERVICE_CODE'' \<or> key = ''PSC_CODE'' then
            (if \<not> validatePSCCode s
             then Some (ValidationError key s
                    [''PSC code must be 1 letter followed by 3 digits'', ''Example: R425''])
             else None)
          else if key = ''AGENCY_CODE'' \<or> key = ''CONTRACTING_AGENCY_ID'' \<or> key = ''FUNDING_AGENCY_ID'' then
            (if \<not> validateAgencyCode s
             then Some (ValidationError key s
                    [''Agency code must be exactly 4 digits'', ''Example: 9700''])
             else None)
          else None
      | _ \<Rightarrow> None)"

fun validateSearchParams :: "params \<Rightarrow> error option" where
  "validateSearchParams [] = None"
| "validateSearchParams ((key, v) # rest) =
     (case validateParam key v of Some e \<Rightarrow> Some e | None \<Rightarrow> validateSearchParams rest)"

subsection \<open>The query string\<close>

text \<open>
  \<open>URLSearchParams.toString()\<close> is the application/x-www-form-urlencoded serializer of the
  URL Standard: the bytes of a name or value are kept when they are ASCII letters, digits or
  one of \<open>*-._\<close>, a space becomes \<open>+\<close>, and every other byte becomes \<open>%\<close> and two upper-case
  hexadecimal digits; a pair is \<open>name=value\<close> and pairs are joined by \<open>&\<close>.
\<close>

definition unreserved :: "char \<Rightarrow> bool" where
  "unreserved c \<longleftrightarrow> is_upper c \<or> is_lower c \<or> is_digit c \<or> c \<in> set ''*-._''"

definition hex_digit :: "nat \<Rightarrow> char" where
  "hex_digit n = ''0123456789ABCDEF'' ! n"

definition form_encode_byte :: "char \<Rightarrow> string" where
  "form_encode_byte c =
     (if unreserved c then [c]
      else if c = CHR '' '' then ''+''
      else [CHR ''%'', hex_digit (of_char c div 16), hex_digit (of_char c mod 16)])"

definition form_encode :: "string \<Rightarrow> string" where
  "form_encode s = concat (map form_encode_byte s)"

definition URLSearchParams_toString :: "(string \<times> string) list \<Rightarrow> string" where
  "URLSearchParams_toString pairs =
     join ''&'' (map (\<lambda>(name, v). form_encode name @ ''='' @ form_encode v) pairs)"

text \<open>The test \<open>value !== undefined && value !== null && value !== ''\<close>.\<close>

definition present :: "pval \<Rightarrow> bool" where
  "present v \<longleftrightarrow> v \<noteq> PUndefined \<and> v \<noteq> PNull \<and> v \<noteq> PStr []"

definition buildQueryString :: "params \<Rightarrow> string" where
  "buildQueryString ps =
     URLSearchParams_toString
       (map (\<lambda>(key, v). (key, pval_toString v)) (filter (\<lambda>(key, v). present v) ps))"

text \<open>
  Decoding a query string, as \<open>new URLSearchParams(query)\<close> does (the parser of the same
  standard): split at \<open>&\<close>, skip empty pieces, split each piece at its first \<open>=\<close>, turn \<open>+\<close>
  into a space and decode every \<open>%\<close> followed by two hexadecimal digits. The query of a URL
  is what stands between its first \<open>?\<close> and its fragment.
\<close>

definition hex_value :: "char \<Rightarrow> nat option" where
  "hex_value c =
     (let n = (of_char c :: nat) in
      if 48 \<le> n \<and> n \<le> 57 then Some (n - 48)
      else if 65 \<le> n \<and> n \<le> 70 then Some (n - 55)
      else if 97 \<le> n \<and> n \<le> 102 then Some (n - 87)
      else None)"

fun percent_decode :: "string \<Rightarrow> string" where
  "percent_decode (c # h1 # h2 # rest) =
     (if c = CHR ''%'' then
        (case (hex_value h1, hex_value h2) of
           (Some a, Some b) \<Rightarrow> char_of (16 * a + b) # percent_decode rest
         | _ \<Rightarrow> c # percent_decode (h1 # h2 # rest))
      else c # percent_decode (h1 # h2 # rest))"
| "percent_decode cs = cs"

definition form_decode :: "string \<Rightarrow> string" where
  "form_decode s = percent_decode (map (\<lambda>c. if c = CHR ''+'' then CHR '' '' else c) s)"

fun split_on :: "char \<Rightarrow> string \<Rightarrow> string list" where
  "split_on d [] = [[]]"
| "split_on d (c # cs) =
     (if c = d then [] # split_on d cs
      else (case split_on d cs of [] \<Rightarrow> [[c]] | p # ps \<Rightarrow> (c # p) # ps))"

definition parse_query :: "string \<Rightarrow> (string \<times> string) list" where
  "parse_query q =
     map (\<lambda>p. (form_decode (takeWhile (\<lambda>c. c \<noteq> CHR ''='') p),
                form_decode (drop 1 (dropWhile (\<lambda>c. c \<noteq> CHR ''='') p))))
       (filter (\<lambda>p. p \<noteq> []) (split_on (CHR ''&'') q))"

definition url_query :: "string \<Rightarrow> string" where
  "url_query url =
     drop 1 (dropWhile (\<lambda>c. c \<noteq> CHR ''?'') (takeWhile (\<lambda>c. c \<noteq> CHR ''#'') url))"

section \<open>The request configuration\<close>

text \<open>
  \<open>Required<FPDSRequestConfig>\<close>, the configuration after the defaults are merged in. Its
  numbers are integers (a thread count, milliseconds, a number of attempts).
\<close>

record config =
  threadCount :: int
  timeout :: int
  retryAttempts :: int
  retryDelay :: int
  baseUrl :: string
  userAgent :: string

definition DEFAULT_CONFIG :: config where
  "DEFAULT_CONFIG =
     \<lparr>threadCount = 10, timeout = 30000, retryAttempts = 3, retryDelay = 1000,
      baseUrl = ''https://api.sam.gov/prod/federalcontractopportunities/v1/search'',
      userAgent = ''govdata.js/1.0.0''\<rparr>"

text \<open>
  The optional \<open>config\<close> argument: each field given or left out.
  \<open>{ ...DEFAULT_CONFIG, ...config }\<close> takes every field given and the default for the rest.
\<close>

record partial_config =
  threadCount_opt :: "int option"
  timeout_opt :: "int option"
  retryAttempts_opt :: "int option"
  retryDelay_opt :: "int option"
  baseUrl_opt :: "string option"
  userAgent_opt :: "string option"

definition merge_config :: "partial_config option \<Rightarrow> config" where
  "merge_config c =
     (case c of
        None \<Rightarrow> DEFAULT_CONFIG
      | Some p \<Rightarrow>
          \<lparr>threadCount = (case threadCount_opt p of None \<Rightarrow> threadCount DEFAULT_CONFIG | Some x \<Rightarrow> x),
           timeout = (case timeout_opt p of None \<Rightarrow> timeout DEFAULT_CONFIG | Some x \<Rightarrow> x),
           retryAttempts = (case retryAttempts_opt p of None \<Rightarrow> retryAttempts DEFAULT_CONFIG | Some x \<Rightarrow> x),
           retryDelay = (case retryDelay_opt p of None \<Rightarrow> retryDelay DEFAULT_CONFIG | Some x \<Rightarrow> x),
           baseUrl = (case baseUrl_opt p of None \<Rightarrow> baseUrl DEFAULT_CONFIG | Some x \<Rightarrow> x),
           userAgent = (case userAgent_opt p of None \<Rightarrow> userAgent DEFAULT_CONFIG | Some x \<Rightarrow> x)\<rparr>)"

definition buildSearchUrl :: "config \<Rightarrow> params \<Rightarrow> string" where
  "buildSearchUrl cfg ps = baseUrl cfg @ ''?'' @ buildQueryString ps"

text \<open>
  Decoding the query string of the search URL reproduces the parameters when it gives back
  every key with its value, in order.
\<close>

definition roundtrips :: "config \<Rightarrow> params \<Rightarrow> bool" where
  "roundtrips cfg ps \<longleftrightarrow>
     map (\<lambda>(key, s). (key, PStr s)) (parse_query (url_query (buildSearchUrl cfg ps))) = ps"

subsection \<open>Decoding inverts encoding\<close>

definition delimiter :: "char \<Rightarrow> bool" where
  "delimiter c \<longleftrightarrow> c \<in> set ''&=#?+%''"

lemma hex_digit_range: "k < 16 \<Longrightarrow> hex_digit k \<in> set ''0123456789ABCDEF''"
  unfolding hex_digit_def by (rule nth_mem) simp

lemma hex_value_hex_digit: "k < 16 \<Longrightarrow> hex_value (hex_digit k) = Some k"
proof -
  assume "k < 16"
  then have "k = 0 \<or> k = 1 \<or> k = 2 \<or> k = 3 \<or> k = 4 \<or> k = 5 \<or> k = 6 \<or> k = 7 \<or>
      k = 8 \<or> k = 9 \<or> k = 10 \<or> k = 11 \<or> k = 12 \<or> k = 13 \<or> k = 14 \<or> k = 15"
    by arith
  then show ?thesis
    by (auto simp: hex_digit_def hex_value_def)
qed

lemma unreserved_not_delimiter: "unreserved c \<Longrightarrow> \<not> delimiter c"
  by (auto simp: unreserved_def delimiter_def is_upper_def is_lower_def is_digit_def)

lemma hex_digit_not_delimiter: "k < 16 \<Longrightarrow> \<not> delimiter (hex_digit k)"
  using hex_digit_range [of k] by (auto simp: delimiter_def)

lemma percent_decode_other: "c \<noteq> CHR ''%'' \<Longrightarrow> percent_decode (c # s) = c # percent_decode s"
  by (cases "c # s" rule: percent_decode.cases) auto

lemma nibbles: "(of_char c :: nat) div 16 < 16" "(of_char c :: nat) mod 16 < 16"
proof -
  have "(of_char c :: nat) < 256"
    by simp
  then show "(of_char c :: nat) div 16 < 16"
    by arith
  show "(of_char c :: nat) mod 16 < 16"
    by simp
qed

lemma form_decode_encode_byte: "form_decode (form_encode_byte c @ s) = c # form_decode s"
proof (cases "unreserved c")
  case True
  then have "c \<noteq> CHR ''+''" "c \<noteq> CHR ''%''"
    using unreserved_not_delimiter [of c] by (auto simp: delimiter_def)
  with True show ?thesis
    by (simp add: form_decode_def form_encode_byte_def percent_decode_other)
next
  case False
  show ?thesis
  proof (cases "c = CHR '' ''")
    case True
    with False show ?thesis
      by (simp add: form_decode_def form_encode_byte_def percent_decode_other)
  next
    case nsp: False
    let ?hi = "hex_digit (of_char c div 16)" and ?lo = "hex_digit (of_char c mod 16)"
    have plus: "?hi \<noteq> CHR ''+''" "?lo \<noteq> CHR ''+''"
      using hex_digit_not_delimiter [OF nibbles(1), of c] hex_digit_not_delimiter [OF nibbles(2), of c]
      by (auto simp: delimiter_def)
    have "char_of (16 * (of_char c div 16) + (of_char c mod 16 :: nat)) = c"
      by simp
    with False nsp plus show ?thesis
      by (simp add: form_decode_def form_encode_byte_def hex_value_hex_digit nibbles)
  qed
qed

lemma form_decode_encode: "form_decode (form_encode s) = s"
proof (induction s)
  case Nil
  then show ?case by (simp add: form_decode_def form_encode_def)
next
  case (Cons c s)
  have "form_encode (c # s) = form_encode_byte c @ form_encode s"
    by (simp add: form_encode_def)
  with Cons show ?case
    by (simp add: form_decode_encode_byte)
qed

lemma form_encode_byte_chars: "x \<in> set (form_encode_byte c) \<Longrightarrow> x \<notin> set ''&=#?''"
proof -
  assume x: "x \<in> set (form_encode_byte c)"
  have "\<not> delimiter (hex_digit (of_char c div 16))" "\<not> delimiter (hex_digit (of_char c mod 16))"
    by (simp_all add: hex_digit_not_delimiter nibbles)
  with x show ?thesis
    using unreserved_not_delimiter [of c]
    by (auto simp: form_encode_byte_def delimiter_def split: if_splits)
qed

lemma form_encode_chars: "x \<in> set (form_encode s) \<Longrightarrow> x \<notin> set ''&=#?''"
  unfolding form_encode_def using form_encode_byte_chars by fastforce

lemma split_on_single: "d \<notin> set p \<Longrightarrow> split_on d p = [p]"
  by (induction p) auto

lemma split_on_append: "d \<notin> set p \<Longrightarrow> split_on d (p @ d # rest) = p # split_on d rest"
  by (induction p) auto

lemma split_on_join:
  "ps \<noteq> [] \<Longrightarrow> \<forall>p \<in> set ps. d \<notin> set p \<Longrightarrow> split_on d (join [d] ps) = ps"
proof (induction "[d]" ps rule: join.induct)
  case 1
  then show ?case by simp
next
  case (2 x)
  then show ?case by (simp add: split_on_single)
next
  case (3 x y ys)
  then show ?case by (simp add: split_on_append)
qed

definition encode_pair :: "string \<times> string \<Rightarrow> string" where
  "encode_pair p = form_encode (fst p) @ ''='' @ form_encode (snd p)"

definition decode_pair :: "string \<Rightarrow> string \<times> string" where
  "decode_pair p = (form_decode (takeWhile (\<lambda>c. c \<noteq> CHR ''='') p),
                    form_decode (drop 1 (dropWhile (\<lambda>c. c \<noteq> CHR ''='') p)))"

lemma encode_pair_fun: "(\<lambda>(name, v). form_encode name @ ''='' @ form_encode v) = encode_pair"
  by (auto simp: encode_pair_def fun_eq_iff)

lemma decode_encode_pair: "decode_pair (encode_pair p) = p"
proof -
  have ne: "\<And>x. x \<in> set (form_encode (fst p)) \<Longrightarrow> x \<noteq> CHR ''=''"
    using form_encode_chars by fastforce
  then have "takeWhile (\<lambda>c. c \<noteq> CHR ''='') (encode_pair p) = form_encode (fst p)"
    by (simp add: encode_pair_def takeWhile_append2)
  moreover from ne have "dropWhile (\<lambda>c. c \<noteq> CHR ''='') (encode_pair p) = ''='' @ form_encode (snd p)"
    by (simp add: encode_pair_def dropWhile_append2)
  ultimately show ?thesis
    by (simp add: decode_pair_def form_decode_encode)
qed

lemma encode_pair_chars: "x \<in> set (encode_pair p) \<Longrightarrow> x \<noteq> CHR ''&'' \<and> x \<noteq> CHR ''#''"
  using form_encode_chars [of x "fst p"] form_encode_chars [of x "snd p"]
  by (auto simp: encode_pair_def)

lemma join_chars: "x \<in> set (join sep ps) \<Longrightarrow> x \<in> set sep \<or> (\<exists>p \<in> set ps. x \<in> set p)"
  by (induction sep ps rule: join.induct) auto

lemma parse_query_serialize: "parse_query (URLSearchParams_toString pairs) = pairs"
proof (cases "pairs = []")
  case True
  then show ?thesis
    by (simp add: parse_query_def URLSearchParams_toString_def)
next
  case False
  let ?ps = "map encode_pair pairs"
  have ser: "URLSearchParams_toString pairs = join ''&'' ?ps"
    by (simp only: URLSearchParams_toString_def encode_pair_fun)
  have "\<forall>p \<in> set ?ps. CHR ''&'' \<notin> set p"
    using encode_pair_chars by fastforce
  with False have "split_on (CHR ''&'') (join ''&'' ?ps) = ?ps"
    by (simp add: split_on_join)
  moreover have "filter (\<lambda>p. p \<noteq> []) ?ps = ?ps"
    by (simp add: encode_pair_def)
  ultimately have "parse_query (URLSearchParams_toString pairs) = map decode_pair ?ps"
    using ser by (simp add: parse_query_def decode_pair_def)
  then show ?thesis
    by (simp add: decode_encode_pair comp_def)
qed

lemma serialize_chars: "x \<in> set (URLSearchParams_toString pairs) \<Longrightarrow> x \<noteq> CHR ''#''"
proof -
  assume "x \<in> set (URLSearchParams_toString pairs)"
  then have "x \<in> set (join ''&'' (map encode_pair pairs))"
    by (simp only: URLSearchParams_toString_def encode_pair_fun)
  then show ?thesis
    using encode_pair_chars by (fastforce dest: join_chars)
qed

lemma url_query_build:
  assumes "CHR ''?'' \<notin> set (baseUrl cfg)" and "CHR ''#'' \<notin> set (baseUrl cfg)"
  shows "url_query (buildSearchUrl cfg ps) = buildQueryString ps"
proof -
  have "\<forall>x \<in> set (buildSearchUrl cfg ps). x \<noteq> CHR ''#''"
    using assms serialize_chars by (auto simp: buildSearchUrl_def buildQueryString_def)
  then have whole: "takeWhile (\<lambda>c. c \<noteq> CHR ''#'') (buildSearchUrl cfg ps) = buildSearchUrl cfg ps"
    by (simp add: takeWhile_eq_all_conv)
  have "\<And>x. x \<in> set (baseUrl cfg) \<Longrightarrow> x \<noteq> CHR ''?''"
    using assms by auto
  then have "dropWhile (\<lambda>c. c \<noteq> CHR ''?'') (buildSearchUrl cfg ps) = ''?'' @ buildQueryString ps"
    by (simp add: buildSearchUrl_def dropWhile_append2)
  then show ?thesis
    unfolding url_query_def whole by simp
qed

lemma parse_query_build:
  assumes "CHR ''?'' \<notin> set (baseUrl cfg)" and "CHR ''#'' \<notin> set (baseUrl cfg)"
  shows "parse_query (url_query (buildSearchUrl cfg ps)) =
           map (\<lambda>(key, v). (key, pval_toString v)) (filter (\<lambda>(key, v). present v) ps)"
  by (simp add: url_query_build [OF assms] buildQueryString_def parse_query_serialize)

lemma nonempty_strings_kept:
  assumes "\<forall>(key, v) \<in> set ps. \<exists>s. v = PStr s \<and> s \<noteq> []"
  shows "map (\<lambda>(key, s). (key, PStr s))
           (map (\<lambda>(key, v). (key, pval_toString v)) (filter (\<lambda>(key, v). present v) ps)) = ps"
  using assms by (induction ps) (auto simp: present_def)

text \<open>
  Claim C6, as the code has it. For a base URL without \<open>?\<close> and \<open>#\<close>, decoding the query
  string of the search URL gives, in order, the entries of the parameters whose value is
  not \<open>undefined\<close>, \<open>null\<close> or the empty string, each key with the string of its value (a list
  as its elements joined by commas). So a mapping all of whose values are non-empty strings
  is reproduced exactly.
\<close>

theorem buildSearchUrl_roundtrip:
  assumes "CHR ''?'' \<notin> set (baseUrl cfg)" and "CHR ''#'' \<notin> set (baseUrl cfg)"
  shows "parse_query (url_query (buildSearchUrl cfg ps)) =
           map (\<lambda>(key, v). (key, pval_toString v)) (filter (\<lambda>(key, v). present v) ps) \<and>
         ((\<forall>(key, v) \<in> set ps. \<exists>s. v = PStr s \<and> s \<noteq> []) \<longrightarrow> roundtrips cfg ps)"
  using parse_query_build [OF assms, of ps] nonempty_strings_kept [of ps]
  by (simp add: roundtrips_def)

theorem buildSearchUrl_roundtrip_witness:
  "roundtrips DEFAULT_CONFIG
     [(''PIID'', PStr ''HT0015 25/D&9=12''), (''LAST_MOD_DATE'', PStr ''[2022/01/01, 2024/12/31]'')] \<and>
   parse_query (url_query (buildSearchUrl DEFAULT_CONFIG
     [(''PIID'', PList [''A'', ''B'']), (''NAICS_CODE'', PUndefined), (''VENDOR_NAME'', PStr ''Acme'')]))
   = [(''PIID'', ''A,B''), (''VENDOR_NAME'', ''Acme'')]"
proof -
  have base: "CHR ''?'' \<notin> set (baseUrl DEFAULT_CONFIG)" "CHR ''#'' \<notin> set (baseUrl DEFAULT_CONFIG)"
    by (simp_all add: DEFAULT_CONFIG_def)
  show ?thesis
    using buildSearchUrl_roundtrip [OF base,
        of "[(''PIID'', PStr ''HT0015 25/D&9=12''), (''LAST_MOD_DATE'', PStr ''[2022/01/01, 2024/12/31]'')]"]
      buildSearchUrl_roundtrip [OF base,
        of "[(''PIID'', PList [''A'', ''B'']), (''NAICS_CODE'', PUndefined), (''VENDOR_NAME'', PStr ''Acme'')]"]
    by (simp add: present_def)
qed

text \<open>
  The claim as the specification states it fails: these parameters pass validation, and
  decoding the query string of their URL loses the key \<open>VENDOR_NAME\<close>, whose value is the
  empty string, and gives the list under \<open>PIID\<close> back as one string.
\<close>

theorem buildSearchUrl_roundtrip_counterexample:
  "validateSearchParams [(''VENDOR_NAME'', PStr []), (''PIID'', PList [''A'', ''B''])] = None \<and>
   parse_query (url_query (buildSearchUrl DEFAULT_CONFIG
     [(''VENDOR_NAME'', PStr []), (''PIID'', PList [''A'', ''B''])])) = [(''PIID'', ''A,B'')] \<and>
   \<not> roundtrips DEFAULT_CONFIG [(''VENDOR_NAME'', PStr []), (''PIID'', PList [''A'', ''B''])]"
proof -
  have base: "CHR ''?'' \<notin> set (baseUrl DEFAULT_CONFIG)" "CHR ''#'' \<notin> set (baseUrl DEFAULT_CONFIG)"
    by (simp_all add: DEFAULT_CONFIG_def)
  show ?thesis
    by (simp add: parse_query_build [OF base] roundtrips_def present_def validateParam_def)
qed

section \<open>The field mapper (class \<open>FPDSFieldMapper\<close>)\<close>

text \<open>\<open>v || ''\<close>\<close>

definition or_empty :: "jsval \<Rightarrow> jsval" where
  "or_empty v = (if truthy v then v else JStr [])"

text \<open>
  \<open>generateContractHash\<close>: the template literal \<open>`${contractNumber}:${awardDate}`\<close>, then
  the hex digest of it. The digest function is the parameter \<open>sha256\<close>.
\<close>

definition hashString :: "string \<Rightarrow> string \<Rightarrow> string" where
  "hashString contractNumber awardDate = contractNumber @ '':'' @ awardDate"

definition generateContractHash :: "(string \<Rightarrow> string) \<Rightarrow> string \<Rightarrow> string \<Rightarrow> string" where
  "generateContractHash sha256 contractNumber awardDate = sha256 (hashString contractNumber awardDate)"

text \<open>
  \<open>mapRecord(rawRecord, sourceMetadata)\<close>: the object literal, its keys in the order they
  are written. The arguments of \<open>generateContractHash\<close> go through the template literal, so
  they are converted with \<open>String\<close>.
\<close>

definition mapRecord :: "runtime \<Rightarrow> jsobj \<Rightarrow> jsval \<Rightarrow> jsobj" where
  "mapRecord rt rawRecord sourceMetadata =
     [
      (''contract_hash'',
        JStr (generateContractHash (sha256_hex rt)
          (js_toString (or_empty (obj_get rawRecord ''content__award__awardID__awardContractID__PIID'')))
          (js_toString (or_empty (obj_get rawRecord ''content__award__relevantContractDates__signedDate''))))),
      (''contract_number'',
        or_empty (obj_get rawRecord ''content__award__awardID__awardContractID__PIID'')),
      (''title'',
        or_empty (obj_get rawRecord ''title'')),
      (''link'',
        or_empty (obj_get rawRecord ''link__href'')),
      (''award_date'',
        or_empty (obj_get rawRecord ''content__award__relevantContractDates__signedDate'')),
      (''award_amount'',
        parseFloatSafe rt (obj_get rawRecord ''content__award__dollarValues__obligatedAmount'')),
      (''total_potential_value'',
        parseFloatSafe rt (obj_get rawRecord ''content__award__dollarValues__baseAndAllOptionsValue'')),
      (''contract_type'',
        or_empty (obj_get rawRecord ''content__award__contractData__contractActionType__description'')),
      (''project_description'',
        or_empty (obj_get rawRecord ''content__award__contractData__descriptionOfContractRequirement'')),
      (''naics_code'',
        or_empty (obj_get rawRecord ''content__award__productOrServiceInformation__principalNAICSCode'')),
      (''naics_description'',
        or_empty (obj_get rawRecord ''content__award__productOrServiceInformation__principalNAICSCode__description'')),
      (''psc_code'',
        or_empty (obj_get rawRecord ''content__award__productOrServiceInformation__productOrServiceCode'')),
      (''psc_description'',
        or_empty (obj_get rawRecord ''content__award__productOrServiceInformation__productOrServiceCode__description'')),
      (''contracting_agency'',
        or_empty (obj_get rawRecord ''content__award__purchaserInformation__contractingOfficeAgencyID__name'')),
      (''contracting_office_code'',
        or_empty (obj_get rawRecord ''content__award__purchaserInformation__contractingOfficeID'')),
      (''contracting_office_name'',
        or_empty (obj_get rawRecord ''content__award__purchaserInformation__contractingOfficeID__name'')),
      (''vendor_name'',
        or_empty (obj_get rawRecord ''content__award__vendor__vendorHeader__vendorName'')),
      (''vendor_uei'',
        or_empty (obj_get rawRecord ''content__award__vendor__vendorSiteDetails__entityIdentifiers__vendorUEIInformation__UEI'')),
      (''business_size'',
        or_empty (obj_get rawRecord ''content__award__vendor__contractingOfficerBusinessSizeDetermination__description'')),
      (''vendor_city'',
        or_empty (obj_get rawRecord ''content__award__vendor__vendorSiteDetails__vendorLocation__city'')),
      (''vendor_state'',
        or_empty (obj_get rawRecord ''content__award__vendor__vendorSiteDetails__vendorLocation__state'')),
      (''sdvosb_status'',
        JStr (convertBooleanToString (obj_get rawRecord ''content__award__vendor__vendorSiteDetails__vendorSocioEconomicIndicators__isServiceRelatedDisabledVeteranOwnedBusiness''))),
      (''small_business_status'',
        JStr (convertBooleanToString (obj_get rawRecord ''content__award__vendor__vendorSiteDetails__vendorSocioEconomicIndicators__isSmallBusiness''))),
      (''women_owned_status'',
        JStr (convertBooleanToString (obj_get rawRecord ''content__award__vendor__vendorSiteDetails__vendorSocioEconomicIndicators__isWomenOwned''))),
      (''competition_extent'',
        or_empty (obj_get rawRecord ''content__award__competition__extentCompeted__description'')),
      (''set_aside_type'',
        or_empty (obj_get rawRecord ''content__award__competition__idvTypeOfSetAside__description'')),
      (''number_of_offers'',
        parseIntSafe rt (obj_get rawRecord ''content__award__competition__numberOfOffersReceived'')),
      (''solicitation_procedure'',
        or_empty (obj_get rawRecord ''content__award__competition__solicitationProcedures__description'')),
      (''start_date'',
        or_empty (obj_get rawRecord ''content__award__relevantContractDates__effectiveDate'')),
      (''end_date'',
        or_empty (obj_get rawRecord ''content__award__relevantContractDates__currentCompletionDate'')),
      (''performance_state'',
        or_empty (obj_get rawRecord ''content__award__placeOfPerformance__principalPlaceOfPerformance__stateCode'')),
      (''performance_city'',
        or_empty (obj_get rawRecord ''content__award__placeOfPerformance__placeOfPerformanceZIPCode__city'')),
      (''parent_contract_id'',
        or_empty (obj_get rawRecord ''content__award__awardID__referencedIDVID__PIID'')),
      (''parent_contract_type'',
        or_empty (obj_get rawRecord ''content__award__contractData__referencedIDVType__description'')),
      (''source_metadata'',
        (if truthy sourceMetadata then sourceMetadata else JUndefined))]"

definition mapRecords :: "runtime \<Rightarrow> jsobj list \<Rightarrow> jsval \<Rightarrow> jsobj list" where
  "mapRecords rt rawRecords sourceMetadata =
     map (\<lambda>record. mapRecord rt record sourceMetadata) rawRecords"

lemma hashString_inj:
  assumes "CHR '':'' \<notin> set a" and "CHR '':'' \<notin> set c" and "hashString a b = hashString c d"
  shows "a = c \<and> b = d"
  using assms unfolding hashString_def
proof (induction a arbitrary: c)
  case Nil
  then show ?case by (cases c) auto
next
  case (Cons x a)
  then show ?case by (cases c) auto
qed

text \<open>
  Claim C8, as the code has it. For all arguments the contract hash is the digest of the
  contract number, a colon and the award date; it is a function of its two arguments alone,
  so equal pairs have equal hashes. Two different pairs whose contract numbers contain no
  colon are hashed from two different strings, and their contract hashes are equal exactly
  when the digest collides on those two strings.
\<close>

theorem generateContractHash_digest:
  "generateContractHash sha256 a b = sha256 (a @ '':'' @ b) \<and>
   ((a, b) = (c, d) \<longrightarrow> generateContractHash sha256 a b = generateContractHash sha256 c d) \<and>
   (CHR '':'' \<notin> set a \<and> CHR '':'' \<notin> set c \<and> (a, b) \<noteq> (c, d) \<longrightarrow>
      a @ '':'' @ b \<noteq> c @ '':'' @ d \<and>
      (generateContractHash sha256 a b = generateContractHash sha256 c d \<longleftrightarrow>
         sha256 (a @ '':'' @ b) = sha256 (c @ '':'' @ d)))"
proof -
  have digest: "generateContractHash sha256 x y = sha256 (x @ '':'' @ y)" for x y
    by (simp add: generateContractHash_def hashString_def)
  have "a @ '':'' @ b \<noteq> c @ '':'' @ d"
    if "CHR '':'' \<notin> set a" and "CHR '':'' \<notin> set c" and "(a, b) \<noteq> (c, d)"
    using hashString_inj [of a c b d] that unfolding hashString_def by blast
  then show ?thesis
    unfolding digest by auto
qed

theorem generateContractHash_digest_witness:
  "generateContractHash (\<lambda>s. s) ''HT001525D9012'' ''2024-01-08 00:00:00''
     = ''HT001525D9012:2024-01-08 00:00:00'' \<and>
   generateContractHash (\<lambda>s. s @ s) ''HT001525D9012'' ''2024-01-08 00:00:00''
     = generateContractHash (\<lambda>s. s @ s) ''HT001525D9012'' ''2024-01-08 00:00:00'' \<and>
   ''HT001525D9012'' @ '':'' @ ''2024-01-08 00:00:00'' \<noteq> ''HT001525D9013'' @ '':'' @ ''2024-01-08 00:00:00'' \<and>
   generateContractHash (\<lambda>s. s) ''HT001525D9012'' ''2024-01-08 00:00:00''
     \<noteq> generateContractHash (\<lambda>s. s) ''HT001525D9013'' ''2024-01-08 00:00:00''"
  using generateContractHash_digest [of "\<lambda>s. s" "''HT001525D9012''" "''2024-01-08 00:00:00''"
      "''HT001525D9013''" "''2024-01-08 00:00:00''"]
    generateContractHash_digest [of "\<lambda>s. s @ s" "''HT001525D9012''" "''2024-01-08 00:00:00''"
      "''HT001525D9012''" "''2024-01-08 00:00:00''"]
  by (simp add: generateContractHash_def hashString_def)

text \<open>
  The claim as the specification states it fails: these two pairs are different, and they
  are hashed from the same string, so their contract hashes are equal whatever the digest.
\<close>

theorem generateContractHash_counterexample:
  "(''a:b'', ''c'') \<noteq> (''a'', ''b:c'') \<and>
   hashString ''a:b'' ''c'' = hashString ''a'' ''b:c'' \<and>
   (\<forall>sha256. generateContractHash sha256 ''a:b'' ''c'' = generateContractHash sha256 ''a'' ''b:c'')"
  by (simp add: generateContractHash_def hashString_def)

section \<open>The serializer (class \<open>ContractProcessor\<close>)\<close>

definition dquote :: char where
  "dquote = CHR 0x22"

definition newline :: char where
  "newline = CHR 0x0A"

text \<open>
  Each statement of \<open>processRecordsForCSV\<close> reads one field of the copied record and writes
  the same field: \<open>update_field k f\<close> is \<open>record[k] = f(record[k])\<close>. For the two amounts
  \<open>f\<close> is \<open>v ? parseFloat(v.toString()) : 0\<close>, for the number of offers
  \<open>v ? parseInt(v.toString(), 10) : 0\<close>, for the three status fields
  \<open>v === 'true' ? 'Yes' : 'No'\<close>.
\<close>

definition update_field :: "string \<Rightarrow> (jsval \<Rightarrow> jsval) \<Rightarrow> jsobj \<Rightarrow> jsobj" where
  "update_field k f record = obj_set record k (f (obj_get record k))"

definition float_or_zero :: "runtime \<Rightarrow> jsval \<Rightarrow> jsval" where
  "float_or_zero rt v = (if truthy v then JNum (parseFloat rt (js_toString v)) else JNum ''0'')"

definition int_or_zero :: "runtime \<Rightarrow> jsval \<Rightarrow> jsval" where
  "int_or_zero rt v = (if truthy v then JNum (parseInt10 rt (js_toString v)) else JNum ''0'')"

definition yes_no :: "jsval \<Rightarrow> jsval" where
  "yes_no v = JStr (if v = JStr ''true'' then ''Yes'' else ''No'')"

definition processRecord :: "runtime \<Rightarrow> jsobj \<Rightarrow> jsobj" where
  "processRecord rt record =
     (let r1 = update_field ''award_amount'' (float_or_zero rt) record;
          r2 = update_field ''total_potential_value'' (float_or_zero rt) r1;
          r3 = update_field ''number_of_offers'' (int_or_zero rt) r2;
          r4 = update_field ''sdvosb_status'' yes_no r3;
          r5 = update_field ''small_business_status'' yes_no r4;
          r6 = update_field ''women_owned_status'' yes_no r5
      in r6)"

definition processRecordsForCSV :: "runtime \<Rightarrow> jsobj list \<Rightarrow> jsobj list" where
  "processRecordsForCSV rt records = map (processRecord rt) records"

text \<open>\<open>value.replace(/"/g, '""')\<close> and the callback that escapes one value.\<close>

definition replace_quotes :: "string \<Rightarrow> string" where
  "replace_quotes s = concat (map (\<lambda>c. if c = dquote then [dquote, dquote] else [c]) s)"

definition csv_escape :: "jsval \<Rightarrow> jsval" where
  "csv_escape v =
     (case v of
        JStr s \<Rightarrow>
          if CHR '','' \<in> set s \<or> dquote \<in> set s
          then JStr ([dquote] @ replace_quotes s @ [dquote]) else v
      | _ \<Rightarrow> v)"

definition convertToCSV :: "runtime \<Rightarrow> jsobj list \<Rightarrow> string" where
  "convertToCSV rt records =
     (case processRecordsForCSV rt records of
        [] \<Rightarrow> []
      | first # others \<Rightarrow>
          let processedRecords = first # others;
              headers = map fst first;
              csvHeaders = join '','' headers;
              csvRows = map (\<lambda>record.
                  array_join '','' (map (\<lambda>header. csv_escape (obj_get record header)) headers))
                processedRecords
          in join [newline] (csvHeaders # csvRows))"

subsection \<open>What a row holds\<close>

text \<open>
  The text of one value in a row, in the words of the specification: a string that contains
  a comma or a double quote is wrapped in double quotes with its double quotes doubled, any
  other string stands as it is; \<open>null\<close> and \<open>undefined\<close> give nothing and every other value
  its \<open>String\<close>.
\<close>

definition csv_text :: "jsval \<Rightarrow> string" where
  "csv_text v =
     (case v of
        JStr s \<Rightarrow>
          if CHR '','' \<in> set s \<or> dquote \<in> set s then [dquote] @ replace_quotes s @ [dquote] else s
      | JUndefined \<Rightarrow> []
      | JNull \<Rightarrow> []
      | _ \<Rightarrow> js_toString v)"

text \<open>The fields \<open>processRecordsForCSV\<close> writes, and the three status fields among them.\<close>

definition csv_fields :: "string list" where
  "csv_fields = [''award_amount'', ''total_potential_value'', ''number_of_offers'',
     ''sdvosb_status'', ''small_business_status'', ''women_owned_status'']"

definition status_fields :: "string list" where
  "status_fields = [''sdvosb_status'', ''small_business_status'', ''women_owned_status'']"

text \<open>
  Stand-ins for the runtime parameters, to evaluate the model on examples: the digest is
  the identity, a number is read from a plain decimal numeral (anything else is \<open>NaN\<close>), and
  the XML parser knows the documents of a table.
\<close>

definition example_number :: "string \<Rightarrow> string" where
  "example_number s =
     (if s \<noteq> [] \<and> list_all is_digit s \<and> (length s = 1 \<or> hd s \<noteq> CHR ''0'') then s else ''NaN'')"

definition example_entry :: "string \<Rightarrow> string \<Rightarrow> jsval" where
  "example_entry piid small =
     JObj [(''title'', JStr (''Award '' @ piid)),
           (''content'', JObj [(''award'', JObj
              [(''awardID'', JObj [(''awardContractID'', JObj [(''PIID'', JStr piid)])]),
               (''vendor'', JObj [(''vendorSiteDetails'', JObj [(''vendorSocioEconomicIndicators'',
                  JObj [(''isSmallBusiness'', JStr small)])])])])])]"

definition example_documents :: "(string \<times> jsval) list" where
  "example_documents =
     [(''<feed><entry>B</entry></feed>'', JObj [(''feed'', JObj [(''entry'', example_entry ''B'' ''true'')])]),
      (''<feed><entry>P1</entry></feed>'', JObj [(''feed'', JObj [(''entry'', example_entry ''P1'' ''true'')])]),
      (''<feed><entry>P2</entry></feed>'', JObj [(''feed'', JObj [(''entry'', example_entry ''P2'' ''false'')])]),
      (''<feed><entry>P3</entry></feed>'', JObj [(''feed'', JObj [(''entry'', example_entry ''P3'' ''true'')])]),
      (''<feed></feed>'', JObj [(''feed'', JStr [])])]"

definition example_runtime :: runtime where
  "example_runtime =
     \<lparr>sha256_hex = (\<lambda>s. s), parseFloat = example_number, parseInt10 = example_number,
      xml_parse = (\<lambda>s. case map_of example_documents s of
                          Some tree \<Rightarrow> Inr tree
                        | None \<Rightarrow> Inl (JsError ''Error'' ''Unexpected document''))\<rparr>"

lemma obj_get_obj_set: "obj_get (obj_set r k v) k' = (if k' = k then v else obj_get r k')"
  by (induction r k v rule: obj_set.induct) (auto simp: obj_get_def)

lemma keys_obj_set_list:
  "map fst (obj_set r k v) = (if k \<in> set (map fst r) then map fst r else map fst r @ [k])"
  by (induction r k v rule: obj_set.induct) auto

lemma obj_get_update_field:
  "obj_get (update_field k f r) k' = (if k' = k then f (obj_get r k) else obj_get r k')"
  by (simp add: update_field_def obj_get_obj_set)

lemma add_key:
  "map fst r = ks @ filter (\<lambda>x. x \<notin> set ks) done \<Longrightarrow> k \<notin> set done \<Longrightarrow>
   map fst (update_field k f r) = ks @ filter (\<lambda>x. x \<notin> set ks) (done @ [k])"
  by (auto simp: keys_obj_set_list update_field_def)

lemma processRecord_keys:
  "map fst (processRecord rt r) = map fst r @ filter (\<lambda>k. k \<notin> set (map fst r)) csv_fields"
proof -
  have s0: "map fst r = map fst r @ filter (\<lambda>x. x \<notin> set (map fst r)) []"
    by simp
  show ?thesis
    unfolding processRecord_def Let_def csv_fields_def
    using add_key [OF add_key [OF add_key [OF add_key [OF add_key [OF add_key [OF s0]]]]],
      of "''award_amount''" "''total_potential_value''" "''number_of_offers''"
         "''sdvosb_status''" "''small_business_status''" "''women_owned_status''"]
    by simp
qed

lemma processRecord_status:
  assumes "f \<in> set status_fields"
  shows "obj_get (processRecord rt r) f = yes_no (obj_get r f)"
  using assms
  by (auto simp: status_fields_def processRecord_def Let_def obj_get_update_field)

lemma array_join_csv_escape:
  "array_join sep (map (\<lambda>h. csv_escape (g h)) hs) = join sep (map (\<lambda>h. csv_text (g h)) hs)"
proof -
  have "\<And>v. (let x = csv_escape v in if x = JUndefined \<or> x = JNull then [] else js_toString x) = csv_text v"
    subgoal for v by (cases v) (auto simp: csv_escape_def csv_text_def Let_def)
    done
  then show ?thesis
    by (simp add: array_join_def comp_def Let_def)
qed

lemma convertToCSV_nonempty:
  assumes "records \<noteq> []"
  shows "convertToCSV rt records =
     (let processed = processRecordsForCSV rt records;
          headers = map fst (hd processed)
      in join [newline]
           (join '','' headers #
            map (\<lambda>record. join '','' (map (\<lambda>header. csv_text (obj_get record header)) headers))
              processed))"
proof -
  from assms obtain r rs where "records = r # rs"
    by (cases records) auto
  then show ?thesis
    by (simp add: convertToCSV_def processRecordsForCSV_def Let_def array_join_csv_escape)
qed





lemma convertBooleanToString_not_true: "convertBooleanToString v \<noteq> ''true''"
  by (cases v) auto

lemma mapRecord_status:
  "obj_get (mapRecord rt raw m) ''sdvosb_status'' =
     JStr (convertBooleanToString (obj_get raw ''content__award__vendor__vendorSiteDetails__vendorSocioEconomicIndicators__isServiceRelatedDisabledVeteranOwnedBusiness''))"
  "obj_get (mapRecord rt raw m) ''small_business_status'' =
     JStr (convertBooleanToString (obj_get raw ''content__award__vendor__vendorSiteDetails__vendorSocioEconomicIndicators__isSmallBusiness''))"
  "obj_get (mapRecord rt raw m) ''women_owned_status'' =
     JStr (convertBooleanToString (obj_get raw ''content__award__vendor__vendorSiteDetails__vendorSocioEconomicIndicators__isWomenOwned''))"
  by (simp_all add: mapRecord_def obj_get_def)

lemma mapRecord_status_No:
  assumes "f \<in> set status_fields"
  shows "yes_no (obj_get (mapRecord rt raw m) f) = JStr ''No''"
  using assms
  by (auto simp: status_fields_def mapRecord_status yes_no_def convertBooleanToString_not_true)

lemma mapRecord_keys: "set status_fields \<subseteq> set (map fst (mapRecord rt raw m))"
  by (simp add: status_fields_def mapRecord_def)

lemma mapRecord_csv_fields: "set csv_fields \<subseteq> set (map fst (mapRecord rt raw m))"
  by (simp add: csv_fields_def mapRecord_def)

lemma processRecord_mapRecord_keys:
  "map fst (processRecord rt (mapRecord rt raw m)) = map fst (mapRecord rt raw m)"
proof -
  have "filter (\<lambda>k. k \<notin> set (map fst (mapRecord rt raw m))) csv_fields = []"
    using mapRecord_csv_fields [of rt raw m] by (auto simp: filter_empty_conv)
  then show ?thesis
    by (simp add: processRecord_keys)
qed

lemma status_cell:
  "csv_text (obj_get (processRecord rt (mapRecord rt raw m)) h) =
     (if h \<in> set status_fields then ''No''
      else csv_text (obj_get (processRecord rt (mapRecord rt raw m)) h))"
proof (cases "h \<in> set status_fields")
  case True
  then have "obj_get (processRecord rt (mapRecord rt raw m)) h = JStr ''No''"
    using processRecord_status [of h rt "mapRecord rt raw m"] mapRecord_status_No [of h rt raw m]
    by simp
  with True show ?thesis
    by (simp add: csv_text_def dquote_def)
next
  case False
  then show ?thesis by simp
qed

lemma convertToCSV_mapRecords:
  assumes "raws \<noteq> []"
  shows "convertToCSV rt (mapRecords rt raws m) =
     join [newline]
       (join '','' (map fst (mapRecord rt (hd raws) m)) #
        map (\<lambda>processed. join '','' (map (\<lambda>h. if h \<in> set status_fields then ''No''
                 else csv_text (obj_get processed h))
               (map fst (mapRecord rt (hd raws) m))))
          (map (\<lambda>raw. processRecord rt (mapRecord rt raw m)) raws))"
proof -
  from assms have ne: "mapRecords rt raws m \<noteq> []"
    by (simp add: mapRecords_def)
  from assms have hd: "hd (processRecordsForCSV rt (mapRecords rt raws m)) =
      processRecord rt (mapRecord rt (hd raws) m)"
    by (cases raws) (simp_all add: processRecordsForCSV_def mapRecords_def)
  have rows: "map (\<lambda>record. join '','' (map (\<lambda>header. csv_text (obj_get record header)) hs))
        (processRecordsForCSV rt (mapRecords rt raws m)) =
      map (\<lambda>processed. join '','' (map (\<lambda>h. if h \<in> set status_fields then ''No''
                 else csv_text (obj_get processed h)) hs))
        (map (\<lambda>raw. processRecord rt (mapRecord rt raw m)) raws)" for hs
    using status_cell [of rt _ m]
    by (simp add: processRecordsForCSV_def mapRecords_def comp_def)
  show ?thesis
    unfolding convertToCSV_nonempty [OF ne] Let_def hd processRecord_mapRecord_keys rows ..
qed

text \<open>
  Claim C10. Let \<open>f\<close> be one of the three status fields. \<open>processRecordsForCSV\<close> returns
  one record per input record, and in each of them \<open>f\<close> holds \<open>'Yes'\<close> when the input record
  held the string \<open>'true'\<close> and \<open>'No'\<close> for every other value. A record built by \<open>mapRecord\<close>
  holds \<open>'Yes'\<close> or \<open>'No'\<close> there, never \<open>'true'\<close>, so for every list of raw records the
  processed mapped records all hold \<open>'No'\<close>. \<open>f\<close> is a column of the CSV text of mapped
  records, and that text is the header row followed by one row per raw record, in which
  the text under each status column is \<open>No\<close>.
\<close>

theorem status_fields_serialize_No:
  assumes "f \<in> set status_fields"
  shows "length (processRecordsForCSV rt records) = length records \<and>
         map (\<lambda>processed. obj_get processed f) (processRecordsForCSV rt records) =
           map (\<lambda>record. JStr (if obj_get record f = JStr ''true'' then ''Yes'' else ''No'')) records \<and>
         map (\<lambda>processed. obj_get processed f) (processRecordsForCSV rt (mapRecords rt raws m)) =
           map (\<lambda>raw. JStr ''No'') raws \<and>
         f \<in> set (map fst (mapRecord rt raw m)) \<and>
         (raws \<noteq> [] \<longrightarrow>
            convertToCSV rt (mapRecords rt raws m) =
              join [newline]
                (join '','' (map fst (mapRecord rt (hd raws) m)) #
                 map (\<lambda>processed. join '','' (map (\<lambda>h. if h \<in> set status_fields then ''No''
                          else csv_text (obj_get processed h))
                        (map fst (mapRecord rt (hd raws) m))))
                   (map (\<lambda>raw. processRecord rt (mapRecord rt raw m)) raws)))"
proof -
  have 1: "length (processRecordsForCSV rt records) = length records"
    by (simp add: processRecordsForCSV_def)
  have 2: "map (\<lambda>processed. obj_get processed f) (processRecordsForCSV rt records) =
           map (\<lambda>record. JStr (if obj_get record f = JStr ''true'' then ''Yes'' else ''No'')) records"
    using processRecord_status [OF assms] by (simp add: processRecordsForCSV_def yes_no_def comp_def)
  have 3: "map (\<lambda>processed. obj_get processed f) (processRecordsForCSV rt (mapRecords rt raws m)) =
           map (\<lambda>raw. JStr ''No'') raws"
    using processRecord_status [OF assms] mapRecord_status_No [OF assms]
    by (simp add: processRecordsForCSV_def mapRecords_def comp_def)
  have 4: "f \<in> set (map fst (mapRecord rt raw m))"
    using mapRecord_keys [of rt raw m] assms by blast
  from 1 2 3 4 convertToCSV_mapRecords [of raws rt m] show ?thesis
    by blast
qed

definition example_raw :: jsobj where
  "example_raw =
     [(''title'', JStr ''Award''),
      (''content__award__vendor__vendorSiteDetails__vendorSocioEconomicIndicators__isSmallBusiness'', JStr ''true''),
      (''content__award__vendor__vendorSiteDetails__vendorSocioEconomicIndicators__isWomenOwned'', JBool True)]"

theorem status_fields_serialize_No_witness:
  "map (\<lambda>processed. obj_get processed ''small_business_status'')
     (processRecordsForCSV example_runtime
        [[(''small_business_status'', JStr ''true'')], [(''small_business_status'', JStr ''Yes'')],
         [(''small_business_status'', JBool True)], [(''title'', JStr ''Award'')]]) =
     [JStr ''Yes'', JStr ''No'', JStr ''No'', JStr ''No''] \<and>
   map (\<lambda>mapped. obj_get mapped ''small_business_status'')
     (mapRecords example_runtime [example_raw, []] JUndefined) = [JStr ''Yes'', JStr ''No''] \<and>
   map (\<lambda>processed. obj_get processed ''small_business_status'')
     (processRecordsForCSV example_runtime (mapRecords example_runtime [example_raw, []] JUndefined)) =
     [JStr ''No'', JStr ''No''] \<and>
   convertToCSV example_runtime (mapRecords example_runtime [example_raw, []] JUndefined) =
     ''contract_hash,contract_number,title,link,award_date,award_amount,total_potential_value,contract_type,project_description,naics_code,naics_description,psc_code,psc_description,contracting_agency,contracting_office_code,contracting_office_name,vendor_name,vendor_uei,business_size,vendor_city,vendor_state,sdvosb_status,small_business_status,women_owned_status,competition_extent,set_aside_type,number_of_offers,solicitation_procedure,start_date,end_date,performance_state,performance_city,parent_contract_id,parent_contract_type,source_metadata''
     @ [newline] @ '':,,Award,,,0,0,,,,,,,,,,,,,,,No,No,No,,,0,,,,,,,,''
     @ [newline] @ '':,,,,,0,0,,,,,,,,,,,,,,,No,No,No,,,0,,,,,,,,''"
proof -
  have mem: "''small_business_status'' \<in> set status_fields"
    by (simp add: status_fields_def)
  have ne: "[example_raw, []] \<noteq> []"
    by simp
  note inst = status_fields_serialize_No [OF mem, of example_runtime _ "[example_raw, []]" JUndefined "[]"]
  have "map (\<lambda>processed. obj_get processed ''small_business_status'')
     (processRecordsForCSV example_runtime
        [[(''small_business_status'', JStr ''true'')], [(''small_business_status'', JStr ''Yes'')],
         [(''small_business_status'', JBool True)], [(''title'', JStr ''Award'')]]) =
     map (\<lambda>record. JStr (if obj_get record ''small_business_status'' = JStr ''true'' then ''Yes'' else ''No''))
       [[(''small_business_status'', JStr ''true'')], [(''small_business_status'', JStr ''Yes'')],
         [(''small_business_status'', JBool True)], [(''title'', JStr ''Award'')]]"
    by (rule conjunct1 [OF conjunct2 [OF inst]])
  also have "\<dots> = [JStr ''Yes'', JStr ''No'', JStr ''No'', JStr ''No'']"
    by code_simp
  finally have a: "map (\<lambda>processed. obj_get processed ''small_business_status'')
     (processRecordsForCSV example_runtime
        [[(''small_business_status'', JStr ''true'')], [(''small_business_status'', JStr ''Yes'')],
         [(''small_business_status'', JBool True)], [(''title'', JStr ''Award'')]]) =
     [JStr ''Yes'', JStr ''No'', JStr ''No'', JStr ''No'']" .
  have b: "map (\<lambda>mapped. obj_get mapped ''small_business_status'')
     (mapRecords example_runtime [example_raw, []] JUndefined) = [JStr ''Yes'', JStr ''No'']"
    by code_simp
  have c: "map (\<lambda>processed. obj_get processed ''small_business_status'')
     (processRecordsForCSV example_runtime (mapRecords example_runtime [example_raw, []] JUndefined)) =
     [JStr ''No'', JStr ''No'']"
    using conjunct1 [OF conjunct2 [OF conjunct2 [OF inst]]] by simp
  have "convertToCSV example_runtime (mapRecords example_runtime [example_raw, []] JUndefined) =
      join [newline]
        (join '','' (map fst (mapRecord example_runtime (hd [example_raw, []]) JUndefined)) #
         map (\<lambda>processed. join '','' (map (\<lambda>h. if h \<in> set status_fields then ''No''
                  else csv_text (obj_get processed h))
                (map fst (mapRecord example_runtime (hd [example_raw, []]) JUndefined))))
           (map (\<lambda>raw. processRecord example_runtime (mapRecord example_runtime raw JUndefined))
              [example_raw, []]))"
    by (rule mp [OF conjunct2 [OF conjunct2 [OF conjunct2 [OF conjunct2 [OF inst]]]] ne])
  also have "\<dots> =
     ''contract_hash,contract_number,title,link,award_date,award_amount,total_potential_value,contract_type,project_description,naics_code,naics_description,psc_code,psc_description,contracting_agency,contracting_office_code,contracting_office_name,vendor_name,vendor_uei,business_size,vendor_city,vendor_state,sdvosb_status,small_business_status,women_owned_status,competition_extent,set_aside_type,number_of_offers,solicitation_procedure,start_date,end_date,performance_state,performance_city,parent_contract_id,parent_contract_type,source_metadata''
     @ [newline] @ '':,,Award,,,0,0,,,,,,,,,,,,,,,No,No,No,,,0,,,,,,,,''
     @ [newline] @ '':,,,,,0,0,,,,,,,,,,,,,,,No,No,No,,,0,,,,,,,,''"
    by code_simp
  finally have d: "convertToCSV example_runtime (mapRecords example_runtime [example_raw, []] JUndefined) =
     ''contract_hash,contract_number,title,link,award_date,award_amount,total_potential_value,contract_type,project_description,naics_code,naics_description,psc_code,psc_description,contracting_agency,contracting_office_code,contracting_office_name,vendor_name,vendor_uei,business_size,vendor_city,vendor_state,sdvosb_status,small_business_status,women_owned_status,competition_extent,set_aside_type,number_of_offers,solicitation_procedure,start_date,end_date,performance_state,performance_city,parent_contract_id,parent_contract_type,source_metadata''
     @ [newline] @ '':,,Award,,,0,0,,,,,,,,,,,,,,,No,No,No,,,0,,,,,,,,''
     @ [newline] @ '':,,,,,0,0,,,,,,,,,,,,,,,No,No,No,,,0,,,,,,,,''" .
  from a b c d show ?thesis
    by (intro conjI)
qed

section \<open>The retrying transport (class \<open>FPDSRequest\<close>)\<close>

text \<open>
  What an \<open>async\<close> call comes to: its promise is fulfilled with a value, rejected with an
  error, or never settled (\<open>Pending\<close>).
\<close>

datatype 'a promise = Resolved 'a | Rejected error | Pending

text \<open>
  The network is a parameter: what the \<open>k\<close>-th call of \<open>fetch\<close> for a URL comes to. \<open>fetch\<close>
  is called with the abort signal of the timeout, so it settles: with a response (status,
  status text, and what reading the body with \<open>text()\<close> comes to) or with a thrown value,
  an \<open>AbortError\<close> at the timeout. The timer is cleared before the body is read, so the
  reading may fail or never end.
\<close>

datatype body = BodyText string | BodyFails js_exn | BodyStalls

datatype fetch_result = Response int string body | FetchFails js_exn

type_synonym network = "string \<Rightarrow> nat \<Rightarrow> fetch_result"

text \<open>The \<open>catch\<close> block of \<open>makeRequest\<close> for a value that is not an \<open>FPDSRequestError\<close>.\<close>

definition to_NetworkError :: "config \<Rightarrow> js_exn \<Rightarrow> error" where
  "to_NetworkError cfg e =
     (case e of
        JsError name message \<Rightarrow>
          if name = ''AbortError''
          then NetworkError (''Request timeout after '' @ show_int (timeout cfg) @ ''ms'') None
          else NetworkError (''Network request failed: '' @ message) (Some e)
      | JsThrown s \<Rightarrow> NetworkError (''Network request failed: '' @ s) None)"

text \<open>\<open>makeRequest(url)\<close>, as the \<open>k\<close>-th call for this URL. \<open>response.ok\<close> is a status from 200 to 299.\<close>

definition makeRequest :: "config \<Rightarrow> network \<Rightarrow> string \<Rightarrow> nat \<Rightarrow> string promise" where
  "makeRequest cfg net url k =
     (case net url k of
        FetchFails e \<Rightarrow> Rejected (to_NetworkError cfg e)
      | Response status statusText b \<Rightarrow>
          if \<not> (200 \<le> status \<and> status \<le> 299)
          then Rejected (FPDSRequestError (''HTTP '' @ show_int status @ '': '' @ statusText) status)
          else (case b of
                  BodyText text \<Rightarrow> Resolved text
                | BodyFails e \<Rightarrow> Rejected (to_NetworkError cfg e)
                | BodyStalls \<Rightarrow> Pending))"

text \<open>
  \<open>makeRequestWithRetry(url)\<close>: the loop from a given \<open>attempt\<close>, with \<open>lastError\<close> as it
  stands. Next to the promise the function returns what the loop did, in order: the
  requests it made and the delays it slept. Every error \<open>makeRequest\<close> throws is an \<open>Error\<close>,
  so \<open>lastError\<close> is the error itself.
\<close>

datatype event = Request string | Sleep int

function retry_loop ::
  "config \<Rightarrow> network \<Rightarrow> string \<Rightarrow> int \<Rightarrow> error option \<Rightarrow> string promise \<times> event list" where
  "retry_loop cfg net url attempt lastError =
     (if attempt \<le> retryAttempts cfg then
        (case makeRequest cfg net url (nat attempt) of
           Resolved text \<Rightarrow> (Resolved text, [Request url])
         | Pending \<Rightarrow> (Pending, [Request url])
         | Rejected e \<Rightarrow>
             if attempt = retryAttempts cfg then (Rejected e, [Request url])
             else (let delay = retryDelay cfg * 2 ^ nat (attempt - 1);
                       (r, evs) = retry_loop cfg net url (attempt + 1) (Some e)
                   in (r, Request url # Sleep delay # evs)))
      else (case lastError of None \<Rightarrow> (Rejected ThrownUndefined, []) | Some e \<Rightarrow> (Rejected e, [])))"
  by pat_completeness auto
termination
  by (relation "measure (\<lambda>(cfg, net, url, attempt, lastError). nat (retryAttempts cfg + 1 - attempt))") auto

declare retry_loop.simps [simp del]

definition makeRequestWithRetry :: "config \<Rightarrow> network \<Rightarrow> string \<Rightarrow> string promise \<times> event list" where
  "makeRequestWithRetry cfg net url = retry_loop cfg net url 1 None"

fun is_Request :: "event \<Rightarrow> bool" where
  "is_Request (Request url) = True"
| "is_Request (Sleep ms) = False"

fun is_Rejected :: "'a promise \<Rightarrow> bool" where
  "is_Rejected (Rejected e) = True"
| "is_Rejected p = False"

text \<open>
  The events of tries \<open>a\<close> to \<open>k\<close> when the tries before \<open>k\<close> fail: each failed try is followed
  by its delay, \<open>d * 2^(i-1)\<close> after try \<open>i\<close>, and nothing follows try \<open>k\<close>.
\<close>

definition backoff_trace :: "string \<Rightarrow> int \<Rightarrow> int \<Rightarrow> int \<Rightarrow> event list" where
  "backoff_trace url d a k =
     concat (map (\<lambda>i. [Request url, Sleep (d * 2 ^ nat (i - 1))]) [a..k - 1]) @ [Request url]"

lemma backoff_trace_step:
  "a < k \<Longrightarrow> backoff_trace url d a k = Request url # Sleep (d * 2 ^ nat (a - 1)) # backoff_trace url d (a + 1) k"
  by (simp add: backoff_trace_def upto_rec1 [of a "k - 1"])

lemma backoff_trace_last: "backoff_trace url d k k = [Request url]"
  by (simp add: backoff_trace_def)

lemma retry_loop_trace:
  assumes "a \<le> k" and "k \<le> retryAttempts cfg"
    and "\<forall>j. a \<le> j \<and> j < k \<longrightarrow> is_Rejected (makeRequest cfg net url (nat j))"
    and "\<not> is_Rejected (makeRequest cfg net url (nat k)) \<or> k = retryAttempts cfg"
  shows "retry_loop cfg net url a lastError =
           (makeRequest cfg net url (nat k), backoff_trace url (retryDelay cfg) a k)"
  using assms
proof (induction "nat (k - a)" arbitrary: a lastError)
  case 0
  then have ak: "a = k" by simp
  with 0 show ?case
    by (subst retry_loop.simps, cases "makeRequest cfg net url (nat k)")
       (auto simp: backoff_trace_last)
next
  case (Suc n)
  then have lt: "a < k" by simp
  with Suc.prems obtain e where e: "makeRequest cfg net url (nat a) = Rejected e"
    by (cases "makeRequest cfg net url (nat a)") (force+)
  have "n = nat (k - (a + 1))"
    using Suc.hyps(2) by simp
  moreover have "a + 1 \<le> k"
    using lt by simp
  moreover have "\<forall>j. a + 1 \<le> j \<and> j < k \<longrightarrow> is_Rejected (makeRequest cfg net url (nat j))"
    using Suc.prems(3) by simp
  ultimately have IH: "retry_loop cfg net url (a + 1) (Some e) =
      (makeRequest cfg net url (nat k), backoff_trace url (retryDelay cfg) (a + 1) k)"
    using Suc.hyps(1) Suc.prems(2,4) by blast
  from lt Suc.prems(2) have "a \<le> retryAttempts cfg" "a \<noteq> retryAttempts cfg"
    by simp_all
  then show ?case
    using e IH lt by (subst retry_loop.simps) (simp add: backoff_trace_step)
qed

lemma retry_loop_tries:
  "int (length (filter is_Request (snd (retry_loop cfg net url a lastError))))
     \<le> max 0 (retryAttempts cfg + 1 - a)"
proof (induction cfg net url a lastError rule: retry_loop.induct)
  case (1 cfg net url attempt lastError)
  show ?case
  proof (cases "attempt \<le> retryAttempts cfg")
    case False
    then show ?thesis
      by (subst retry_loop.simps) (simp split: option.splits)
  next
    case True
    show ?thesis
    proof (cases "makeRequest cfg net url (nat attempt)")
      case (Rejected e)
      show ?thesis
      proof (cases "attempt = retryAttempts cfg")
        case True
        with Rejected show ?thesis
          by (subst retry_loop.simps) simp
      next
        case False
        with True Rejected 1 [of e] show ?thesis
          by (subst retry_loop.simps) (auto split: prod.splits)
      qed
    qed (use True in \<open>subst retry_loop.simps, simp\<close>)+
  qed
qed

text \<open>
  Claim C4. Whatever the URL, the number of attempts \<open>r\<close> and the delay \<open>d\<close>: the loop makes
  at most \<open>r\<close> requests. When the tries before try \<open>k\<close> fail and try \<open>k\<close> either does not fail
  or is try \<open>r\<close>, the call comes to exactly what try \<open>k\<close> came to (its response, or its error
  as it was thrown), after the requests and delays of \<open>backoff_trace\<close>: a delay of
  \<open>d * 2^(i-1)\<close> after each failed try \<open>i < k\<close>, and nothing after try \<open>k\<close>.
\<close>

theorem makeRequestWithRetry_backoff:
  "int (length (filter is_Request (snd (makeRequestWithRetry cfg net url)))) \<le> max 0 (retryAttempts cfg) \<and>
   (1 \<le> k \<and> k \<le> retryAttempts cfg \<and>
    (\<forall>j. 1 \<le> j \<and> j < k \<longrightarrow> is_Rejected (makeRequest cfg net url (nat j))) \<and>
    (\<not> is_Rejected (makeRequest cfg net url (nat k)) \<or> k = retryAttempts cfg)
    \<longrightarrow> makeRequestWithRetry cfg net url =
          (makeRequest cfg net url (nat k),
           concat (map (\<lambda>i. [Request url, Sleep (retryDelay cfg * 2 ^ nat (i - 1))]) [1..k - 1])
             @ [Request url]))"
  using retry_loop_tries [of cfg net url 1 None] retry_loop_trace [of 1 k cfg net url None]
  by (simp add: makeRequestWithRetry_def backoff_trace_def)

definition failing_network :: network where
  "failing_network url k = FetchFails (JsError ''TypeError'' ''fetch failed'')"

theorem makeRequestWithRetry_backoff_witness:
  "retryAttempts DEFAULT_CONFIG = 3 \<and> retryDelay DEFAULT_CONFIG = 1000 \<and>
   makeRequestWithRetry DEFAULT_CONFIG failing_network ''u'' =
     (Rejected (NetworkError ''Network request failed: fetch failed''
        (Some (JsError ''TypeError'' ''fetch failed''))),
      [Request ''u'', Sleep 1000, Request ''u'', Sleep 2000, Request ''u''])"
proof -
  have r: "retryAttempts DEFAULT_CONFIG = 3" "retryDelay DEFAULT_CONFIG = 1000"
    by (simp_all add: DEFAULT_CONFIG_def)
  have f: "makeRequest DEFAULT_CONFIG failing_network ''u'' n =
      Rejected (NetworkError ''Network request failed: fetch failed''
        (Some (JsError ''TypeError'' ''fetch failed'')))" for n
    by (simp add: makeRequest_def failing_network_def to_NetworkError_def)
  have u: "[1..(2::int)] = [1, 2]"
    by (simp add: upto_rec1)
  from makeRequestWithRetry_backoff [of DEFAULT_CONFIG failing_network "''u''" 3]
  show ?thesis
    by (simp add: r f u)
qed

section \<open>Fetching one page\<close>

text \<open>
  \<open>parseXML\<close>, \<open>extractEntries\<close> and \<open>processXMLResponse\<close> of the XML normalizer. The text of
  a thrown value in a template literal is \<open>name: message\<close> for an \<open>Error\<close>. A property read
  from a value that is not an object with that key gives \<open>undefined\<close>.
\<close>

definition exn_toString :: "js_exn \<Rightarrow> string" where
  "exn_toString e =
     (case e of
        JsError name message \<Rightarrow>
          if name = [] then message else if message = [] then name else name @ '': '' @ message
      | JsThrown s \<Rightarrow> s)"

definition parseXML :: "runtime \<Rightarrow> string \<Rightarrow> error + jsval" where
  "parseXML rt xmlData =
     (if xmlData = [] \<or> skip_ws xmlData = [] then Inl (ParseError ''XML data is empty or null'')
      else case xml_parse rt xmlData of
             Inl e \<Rightarrow> Inl (ParseError (''Failed to parse XML: '' @ exn_toString e))
           | Inr parsed \<Rightarrow> Inr parsed)"

definition get_prop :: "jsval \<Rightarrow> string \<Rightarrow> jsval" where
  "get_prop v k = (case v of JObj kvs \<Rightarrow> obj_get kvs k | _ \<Rightarrow> JUndefined)"

definition extractEntries :: "jsval \<Rightarrow> jsval list" where
  "extractEntries parsedData =
     (let feed = get_prop parsedData ''feed'' in
      if \<not> truthy feed then []
      else let entries = get_prop feed ''entry'' in
           if \<not> truthy entries then []
           else (case entries of JArr xs \<Rightarrow> xs | _ \<Rightarrow> [entries]))"

text \<open>
  \<open>entries.map(callback)\<close> with a callback that may throw: the first exception ends the map.
\<close>

fun map_throwing :: "('a \<Rightarrow> 'e + 'b) \<Rightarrow> 'a list \<Rightarrow> 'e + 'b list" where
  "map_throwing f [] = Inr []"
| "map_throwing f (x # xs) =
     (case f x of
        Inl e \<Rightarrow> Inl e
      | Inr y \<Rightarrow> (case map_throwing f xs of Inl e \<Rightarrow> Inl e | Inr ys \<Rightarrow> Inr (y # ys)))"

text \<open>
  \<open>processXMLResponse\<close> has no \<open>catch\<close> of its own: a \<open>ParseError\<close> of \<open>parseXML\<close> and a
  \<open>TypeError\<close> of \<open>flattenXMLPaths\<close> both leave it as they are.
\<close>

definition processXMLResponse :: "runtime \<Rightarrow> string \<Rightarrow> error + jsobj list" where
  "processXMLResponse rt xmlData =
     (case parseXML rt xmlData of
        Inl e \<Rightarrow> Inl e
      | Inr parsedData \<Rightarrow>
          (case map_throwing flattenEntry (extractEntries parsedData) of
             Inl x \<Rightarrow> Inl (Uncaught x)
           | Inr records \<Rightarrow> Inr records))"

text \<open>\<open>{ ...this.params, page: pageNumber.toString() }\<close> and the URL of a page.\<close>

definition page_params :: "params \<Rightarrow> int \<Rightarrow> params" where
  "page_params ps pageNumber = obj_set ps ''page'' (PStr (show_int pageNumber))"

definition page_url :: "config \<Rightarrow> params \<Rightarrow> int \<Rightarrow> string" where
  "page_url cfg ps pageNumber = baseUrl cfg @ ''?'' @ buildQueryString (page_params ps pageNumber)"

text \<open>
  The \<open>try\<close> block of \<open>fetchPage\<close>, which runs once the gate has let the task in: the request
  with its retries, the normalizer, the field mapper (called without metadata).
\<close>

definition fetchPage_body :: "runtime \<Rightarrow> config \<Rightarrow> params \<Rightarrow> network \<Rightarrow> int \<Rightarrow> jsobj list promise" where
  "fetchPage_body rt cfg ps net pageNumber =
     (case fst (makeRequestWithRetry cfg net (page_url cfg ps pageNumber)) of
        Rejected e \<Rightarrow> Rejected e
      | Pending \<Rightarrow> Pending
      | Resolved xmlData \<Rightarrow>
          (case processXMLResponse rt xmlData of
             Inl e \<Rightarrow> Rejected e
           | Inr records \<Rightarrow> Resolved (mapRecords rt records JUndefined)))"

text \<open>
  \<open>fetchPage(pageNumber)\<close> when no other task uses the gate: a task that is not let in waits
  for ever, one that is let in releases its permit in \<open>finally\<close> when its body settles. The
  tasks of the gate are named by their page numbers.
\<close>

definition fetchPage ::
  "runtime \<Rightarrow> config \<Rightarrow> params \<Rightarrow> network \<Rightarrow> int semaphore \<Rightarrow> int
     \<Rightarrow> jsobj list promise \<times> int semaphore" where
  "fetchPage rt cfg ps net s pageNumber =
     (case acquire pageNumber s of
        (s1, False) \<Rightarrow> (Pending, s1)
      | (s1, True) \<Rightarrow>
          (case fetchPage_body rt cfg ps net pageNumber of
             Pending \<Rightarrow> (Pending, s1)
           | settled \<Rightarrow> (settled, fst (release s1))))"

record PaginationInfo =
  currentPage :: int
  totalPages :: int
  totalRecords :: int
  recordsPerPage :: int

definition getFirstPage ::
  "runtime \<Rightarrow> config \<Rightarrow> params \<Rightarrow> network \<Rightarrow> int semaphore
     \<Rightarrow> (jsobj list \<times> PaginationInfo) promise \<times> int semaphore" where
  "getFirstPage rt cfg ps net s =
     (case fetchPage rt cfg ps net s 1 of
        (Resolved records, s') \<Rightarrow>
          (Resolved (records,
             \<lparr>currentPage = 1, totalPages = 1,
              totalRecords = int (length records), recordsPerPage = int (length records)\<rparr>), s')
      | (Rejected e, s') \<Rightarrow> (Rejected e, s')
      | (Pending, s') \<Rightarrow> (Pending, s'))"

section \<open>Pages fetched concurrently\<close>

text \<open>
  \<open>getData\<close> calls \<open>fetchPage\<close> for every remaining page in one loop and awaits
  \<open>Promise.all\<close> of the promises. Each call runs up to its \<open>acquire()\<close> at once, so the pages
  meet the gate in page order. From then on the tasks that hold a permit settle in an order
  the program does not control: \<open>pick\<close> chooses, at each step, which of the tasks that can
  settle does so next. \<open>outcome p\<close> is what the body of page \<open>p\<close> comes to once it runs; a
  body that never settles keeps its permit. \<open>Promise.all\<close> keeps the value of each fulfilled
  promise at its own place (\<open>fulfilled\<close>) and rejects with the first rejection.
\<close>

record 'a pool =
  gate :: "int semaphore"
  running :: "int list"
  fulfilled :: "int \<Rightarrow> 'a option"
  rejection :: "error option"

fun launch :: "int list \<Rightarrow> 'a pool \<Rightarrow> 'a pool" where
  "launch [] st = st"
| "launch (p # ps) st =
     (case acquire p (gate st) of
        (s, True) \<Rightarrow> launch ps (st\<lparr>gate := s, running := running st @ [p]\<rparr>)
      | (s, False) \<Rightarrow> launch ps (st\<lparr>gate := s\<rparr>))"

fun is_Pending :: "'a promise \<Rightarrow> bool" where
  "is_Pending Pending = True"
| "is_Pending p = False"

text \<open>
  Task \<open>p\<close> settles: its \<open>finally\<close> releases the permit, which lets the oldest waiting task
  in, and \<open>Promise.all\<close> takes note of the value or of the first rejection.
\<close>

definition settle :: "(int \<Rightarrow> 'a promise) \<Rightarrow> int \<Rightarrow> 'a pool \<Rightarrow> 'a pool" where
  "settle outcome p st =
     (case release (gate st) of
        (s, woken) \<Rightarrow>
          st\<lparr>gate := s,
             running := remove1 p (running st) @ (case woken of None \<Rightarrow> [] | Some w \<Rightarrow> [w]),
             fulfilled := (case outcome p of Resolved v \<Rightarrow> (fulfilled st)(p \<mapsto> v) | _ \<Rightarrow> fulfilled st),
             rejection := (case rejection st of
                             Some e \<Rightarrow> Some e
                           | None \<Rightarrow> (case outcome p of Rejected e \<Rightarrow> Some e | _ \<Rightarrow> None))\<rparr>)"

definition ready :: "(int \<Rightarrow> 'a promise) \<Rightarrow> 'a pool \<Rightarrow> int list" where
  "ready outcome st = filter (\<lambda>p. \<not> is_Pending (outcome p)) (running st)"

definition load :: "'a pool \<Rightarrow> nat" where
  "load st = length (running st) + length (queue (gate st))"

lemma settle_load:
  assumes "p \<in> set (running st)"
  shows "load (settle outcome p st) < load st"
proof -
  from assms obtain k where "length (running st) = Suc k"
    by (cases "running st") auto
  with assms have "length (remove1 p (running st)) < length (running st)"
    by (simp add: length_remove1)
  then show ?thesis
    by (cases "queue (gate st)") (auto simp: load_def settle_def release_def Let_def)
qed

function run_pool ::
  "(int \<Rightarrow> 'a promise) \<Rightarrow> (nat \<Rightarrow> int list \<Rightarrow> nat) \<Rightarrow> nat \<Rightarrow> 'a pool \<Rightarrow> 'a pool" where
  "run_pool outcome pick step st =
     (if ready outcome st = [] then st
      else run_pool outcome pick (Suc step)
             (settle outcome (ready outcome st ! (pick step (ready outcome st) mod length (ready outcome st))) st))"
  by pat_completeness auto
termination
proof (relation "measure (\<lambda>(outcome, pick, step, st). load st)")
  show "wf (measure (\<lambda>(outcome, pick, step, st). load st))"
    by simp
next
  fix outcome :: "int \<Rightarrow> 'a promise" and pick :: "nat \<Rightarrow> int list \<Rightarrow> nat" and step :: nat and st :: "'a pool"
  assume ne: "ready outcome st \<noteq> []"
  let ?p = "ready outcome st ! (pick step (ready outcome st) mod length (ready outcome st))"
  from ne have "?p \<in> set (ready outcome st)"
    by simp
  then have "?p \<in> set (running st)"
    by (simp add: ready_def)
  then show "((outcome, pick, Suc step, settle outcome ?p st), (outcome, pick, step, st))
      \<in> measure (\<lambda>(outcome, pick, step, st). load st)"
    by (simp add: settle_load)
qed

declare run_pool.simps [simp del]

text \<open>
  \<open>await Promise.all(pagePromises)\<close> for the pages \<open>pages\<close>, started on the gate \<open>s\<close>: the
  values in the order of \<open>pages\<close> when every page is fulfilled.
\<close>

definition await_pages ::
  "(int \<Rightarrow> 'a promise) \<Rightarrow> (nat \<Rightarrow> int list \<Rightarrow> nat) \<Rightarrow> int semaphore \<Rightarrow> int list \<Rightarrow> 'a list promise" where
  "await_pages outcome pick s pages =
     (let st = run_pool outcome pick 0
                 (launch pages \<lparr>gate = s, running = [], fulfilled = Map.empty, rejection = None\<rparr>)
      in case rejection st of
           Some e \<Rightarrow> Rejected e
         | None \<Rightarrow> (case those (map (fulfilled st) pages) of
                       Some vs \<Rightarrow> Resolved vs
                     | None \<Rightarrow> Pending))"

text \<open>
  \<open>getData\<close>, from the result of \<open>await this.getFirstPage()\<close> on (so that the pagination can
  be any), and \<open>getData\<close> itself on a new request, whose gate has \<open>threadCount\<close> permits. The
  times kept in \<open>metadata\<close> are left out: nothing reads them.
\<close>

definition getData_after ::
  "runtime \<Rightarrow> config \<Rightarrow> params \<Rightarrow> network \<Rightarrow> (nat \<Rightarrow> int list \<Rightarrow> nat)
     \<Rightarrow> (jsobj list \<times> PaginationInfo) promise \<times> int semaphore \<Rightarrow> jsobj list promise" where
  "getData_after rt cfg ps net pick first =
     (case first of
        (Rejected e, s) \<Rightarrow> Rejected e
      | (Pending, s) \<Rightarrow> Pending
      | (Resolved (firstPageRecords, pagination), s) \<Rightarrow>
          if totalPages pagination \<le> 1 then Resolved firstPageRecords
          else (case await_pages (fetchPage_body rt cfg ps net) pick s [2..totalPages pagination] of
                  Resolved remainingPages \<Rightarrow> Resolved (concat (firstPageRecords # remainingPages))
                | Rejected e \<Rightarrow> Rejected e
                | Pending \<Rightarrow> Pending))"

definition getData ::
  "runtime \<Rightarrow> config \<Rightarrow> params \<Rightarrow> network \<Rightarrow> (nat \<Rightarrow> int list \<Rightarrow> nat) \<Rightarrow> jsobj list promise" where
  "getData rt cfg ps net pick =
     getData_after rt cfg ps net pick (getFirstPage rt cfg ps net (Semaphore (threadCount cfg)))"

subsection \<open>No page is left behind\<close>







text \<open>When the first page has resolved, the gate is as it was made.\<close>

lemma fetchPage_gate_restored:
  assumes "fetchPage rt cfg ps net (Semaphore n) p = (Resolved records, s)"
  shows "0 < permits s \<and> queue s = []"
  using assms
  by (auto simp: fetchPage_def acquire_def release_def Semaphore_def Let_def
      split: if_splits promise.splits)

subsection \<open>Examples of a network\<close>

text \<open>
  A search by NAICS code whose three pages each hold one entry, a contract \<open>B\<close> whose page
  is served at the second try, and no answer for any other URL.
\<close>

definition example_params :: params where
  "example_params = [(''NAICS_CODE'', PStr ''541511'')]"

definition example_network :: network where
  "example_network url k =
     (if url = ''https://api.sam.gov/prod/federalcontractopportunities/v1/search?PIID=B&page=1'' then
        (if k = 1 then Response 503 ''Service Unavailable'' (BodyText [])
         else Response 200 ''OK'' (BodyText ''<feed><entry>B</entry></feed>''))
      else if url = page_url DEFAULT_CONFIG example_params 1 then
        Response 200 ''OK'' (BodyText ''<feed><entry>P1</entry></feed>'')
      else if url = page_url DEFAULT_CONFIG example_params 2 then
        Response 200 ''OK'' (BodyText ''<feed><entry>P2</entry></feed>'')
      else if url = page_url DEFAULT_CONFIG example_params 3 then
        Response 200 ''OK'' (BodyText ''<feed><entry>P3</entry></feed>'')
      else FetchFails (JsError ''TypeError'' ''fetch failed''))"

definition example_page :: "string \<Rightarrow> string \<Rightarrow> jsobj list" where
  "example_page piid small =
     (case map_throwing flattenEntry [example_entry piid small] of
        Inr records \<Rightarrow> mapRecords example_runtime records JUndefined
      | Inl x \<Rightarrow> [])"



subsection \<open>The order of the pages\<close>

lemma getData_first_page:
  "getData rt cfg ps net pick = fst (fetchPage rt cfg ps net (Semaphore (threadCount cfg)) 1)"
  by (simp add: getData_def getData_after_def getFirstPage_def split: prod.splits promise.splits)




subsection \<open>One page only\<close>

text \<open>
  Claim C3. \<open>getFirstPage\<close> sets \<open>totalPages\<close> to 1 and the two record counts to the number
  of records of page 1, whatever the response. So \<open>getData\<close> never reaches the concurrent
  branch: for every network and every parameters it comes to exactly what fetching page 1
  comes to.
\<close>

theorem getData_single_page:
  "getData rt cfg ps net pick = fst (fetchPage rt cfg ps net (Semaphore (threadCount cfg)) 1) \<and>
   fst (getFirstPage rt cfg ps net s) =
     (case fst (fetchPage rt cfg ps net s 1) of
        Resolved records \<Rightarrow>
          Resolved (records,
            \<lparr>currentPage = 1, totalPages = 1,
             totalRecords = int (length records), recordsPerPage = int (length records)\<rparr>)
      | Rejected e \<Rightarrow> Rejected e
      | Pending \<Rightarrow> Pending)"
  using getData_first_page [of rt cfg ps net pick]
  by (simp add: getFirstPage_def split: prod.splits promise.splits)

theorem getData_single_page_witness:
  "getData example_runtime DEFAULT_CONFIG example_params example_network (\<lambda>step tasks. 0) =
     Resolved (example_page ''P1'' ''true'')"
proof -
  have "getData example_runtime DEFAULT_CONFIG example_params example_network (\<lambda>step tasks. 0) =
      fst (fetchPage example_runtime DEFAULT_CONFIG example_params example_network
             (Semaphore (threadCount DEFAULT_CONFIG)) 1)"
    by (rule conjunct1 [OF getData_single_page [where s = "Semaphore 1"]])
  also have "\<dots> = Resolved (example_page ''P1'' ''true'')"
    by code_simp
  finally show ?thesis .
qed

lemma retry_loop_settles:
  "\<forall>url k status statusText. net url k \<noteq> Response status statusText BodyStalls \<Longrightarrow>
   \<not> is_Pending (fst (retry_loop cfg net url a lastError))"
proof (induction cfg net url a lastError rule: retry_loop.induct)
  case (1 cfg net url attempt lastError)
  have np: "makeRequest cfg net url (nat attempt) \<noteq> Pending"
  proof
    assume "makeRequest cfg net url (nat attempt) = Pending"
    then obtain status statusText where "net url (nat attempt) = Response status statusText BodyStalls"
      by (auto simp: makeRequest_def split: fetch_result.splits body.splits if_splits)
    with "1.prems" show False
      by blast
  qed
  show ?case
  proof (cases "attempt \<le> retryAttempts cfg")
    case False
    then show ?thesis
      by (subst retry_loop.simps) (simp split: option.splits)
  next
    case True
    show ?thesis
    proof (cases "makeRequest cfg net url (nat attempt)")
      case (Rejected e)
      show ?thesis
      proof (cases "attempt = retryAttempts cfg")
        case True
        with Rejected show ?thesis
          by (subst retry_loop.simps) simp
      next
        case False
        with True Rejected "1.IH" [of e] "1.prems" show ?thesis
          by (subst retry_loop.simps) (auto split: prod.splits)
      qed
    qed (use True np in \<open>subst retry_loop.simps, simp\<close>)+
  qed
qed

text \<open>A request on a gate with a permit settles when no response body stalls.\<close>

lemma getData_settles:
  assumes "0 < threadCount cfg"
    and "\<forall>url k status statusText. net url k \<noteq> Response status statusText BodyStalls"
  shows "\<not> is_Pending (getData rt cfg ps net pick)"
proof -
  have "\<not> is_Pending (fst (makeRequestWithRetry cfg net (page_url cfg ps 1)))"
    unfolding makeRequestWithRetry_def using assms(2) by (rule retry_loop_settles)
  then have "\<not> is_Pending (fetchPage_body rt cfg ps net 1)"
    by (auto simp: fetchPage_body_def split: promise.splits sum.splits)
  with assms(1) have "\<not> is_Pending (fst (fetchPage rt cfg ps net (Semaphore (threadCount cfg)) 1))"
    by (auto simp: fetchPage_def acquire_def Semaphore_def split: promise.splits)
  then show ?thesis
    by (simp add: getData_first_page)
qed

section \<open>Searching several contracts (\<open>FPDSRequest.searchContracts\<close>)\<close>

record ContractSearchRequest =
  contracts :: "string list"
  dateRange :: "string option"
  metadata :: "jsobj option"

text \<open>\<open>{ PIID: contractNumber, LAST_MOD_DATE: request.dateRange }\<close>\<close>

definition search_params :: "string \<Rightarrow> string option \<Rightarrow> params" where
  "search_params contractNumber dr =
     [(''PIID'', PStr contractNumber),
      (''LAST_MOD_DATE'', case dr of None \<Rightarrow> PUndefined | Some d \<Rightarrow> PStr d)]"

text \<open>
  \<open>new FPDSRequest(params, config)\<close>: the constructor merges the configuration and validates
  the parameters, and throws what \<open>validateSearchParams\<close> throws. The gate of the new
  request has \<open>threadCount\<close> permits.
\<close>

record FPDSRequest =
  req_params :: params
  req_config :: config

definition new_FPDSRequest :: "params \<Rightarrow> partial_config option \<Rightarrow> error + FPDSRequest" where
  "new_FPDSRequest ps config =
     (case validateSearchParams ps of
        Some e \<Rightarrow> Inl e
      | None \<Rightarrow> Inr \<lparr>req_params = ps, req_config = merge_config config\<rparr>)"

text \<open>
  \<open>{ ...record, source_metadata: { ...request.metadata, source_contract_number: contractNumber } }\<close>
\<close>

definition stamp :: "jsobj \<Rightarrow> string \<Rightarrow> jsobj \<Rightarrow> jsobj" where
  "stamp m contractNumber record =
     obj_set record ''source_metadata''
       (JObj (obj_set m ''source_contract_number'' (JStr contractNumber)))"

text \<open>
  The task of one contract number. The request is constructed before the \<open>try\<close> block, so
  an error of the constructor rejects the task; an error of \<open>getData\<close> is caught (and
  logged) and the task is fulfilled with no records.
\<close>

definition contract_task ::
  "runtime \<Rightarrow> ContractSearchRequest \<Rightarrow> partial_config option \<Rightarrow> network
     \<Rightarrow> (nat \<Rightarrow> int list \<Rightarrow> nat) \<Rightarrow> string \<Rightarrow> jsobj list promise" where
  "contract_task rt request config net pick contractNumber =
     (case new_FPDSRequest (search_params contractNumber (dateRange request)) config of
        Inl e \<Rightarrow> Rejected e
      | Inr fpdsRequest \<Rightarrow>
          (case getData rt (req_config fpdsRequest) (req_params fpdsRequest) net pick of
             Resolved records \<Rightarrow>
               Resolved (case metadata request of
                           Some m \<Rightarrow> map (stamp m contractNumber) records
                         | None \<Rightarrow> records)
           | Rejected e \<Rightarrow> Resolved []
           | Pending \<Rightarrow> Pending))"

text \<open>
  \<open>Promise.all\<close> of the tasks. A task can only be rejected by its constructor, which runs
  while the tasks are made, in list order: the first rejection is that of the first
  rejected task in the list.
\<close>

fun first_rejection :: "'a promise list \<Rightarrow> error option" where
  "first_rejection [] = None"
| "first_rejection (Rejected e # ps) = Some e"
| "first_rejection (p # ps) = first_rejection ps"

fun resolved_value :: "'a promise \<Rightarrow> 'a option" where
  "resolved_value (Resolved v) = Some v"
| "resolved_value p = None"

definition promise_all :: "'a promise list \<Rightarrow> 'a list promise" where
  "promise_all ps =
     (case first_rejection ps of
        Some e \<Rightarrow> Rejected e
      | None \<Rightarrow> (case those (map resolved_value ps) of
                    Some vs \<Rightarrow> Resolved vs
                  | None \<Rightarrow> Pending))"

text \<open>
  \<open>searchContracts(request, config)\<close>. Every task has a request of its own, so its own
  network answers (\<open>nets i\<close>) and its own order of settling (\<open>picks i\<close>).
\<close>

definition searchContracts ::
  "runtime \<Rightarrow> ContractSearchRequest \<Rightarrow> partial_config option \<Rightarrow> (nat \<Rightarrow> network)
     \<Rightarrow> (nat \<Rightarrow> nat \<Rightarrow> int list \<Rightarrow> nat) \<Rightarrow> jsobj list promise" where
  "searchContracts rt request config nets picks =
     (case promise_all
             (map (\<lambda>(i, contractNumber). contract_task rt request config (nets i) (picks i) contractNumber)
                (enumerate 0 (contracts request))) of
        Resolved results \<Rightarrow> Resolved (concat results)
      | Rejected e \<Rightarrow> Rejected e
      | Pending \<Rightarrow> Pending)"

text \<open>
  The records of the query for one contract number: those its \<open>getData\<close> returns (with the
  metadata, when the request has some) when it succeeds, none when it fails.
\<close>

definition query_records ::
  "runtime \<Rightarrow> ContractSearchRequest \<Rightarrow> partial_config option \<Rightarrow> network
     \<Rightarrow> (nat \<Rightarrow> int list \<Rightarrow> nat) \<Rightarrow> string \<Rightarrow> jsobj list" where
  "query_records rt request config net pick contractNumber =
     (case getData rt (merge_config config) (search_params contractNumber (dateRange request)) net pick of
        Resolved records \<Rightarrow>
          (case metadata request of
             Some m \<Rightarrow> map (stamp m contractNumber) records
           | None \<Rightarrow> records)
      | _ \<Rightarrow> [])"

lemma promise_all_resolved:
  "\<forall>x \<in> set xs. f x = Resolved (g x) \<Longrightarrow> promise_all (map f xs) = Resolved (map g xs)"
proof -
  assume a: "\<forall>x \<in> set xs. f x = Resolved (g x)"
  then have "first_rejection (map f xs) = None"
    by (induction xs) auto
  moreover from a have "those (map resolved_value (map f xs)) = Some (map g xs)"
    by (induction xs) auto
  ultimately show ?thesis
    by (simp add: promise_all_def)
qed

lemma contract_task_settled:
  assumes "validateSearchParams (search_params c (dateRange request)) = None"
    and "\<not> is_Pending (getData rt (merge_config config) (search_params c (dateRange request)) net pick)"
  shows "contract_task rt request config net pick c = Resolved (query_records rt request config net pick c)"
  using assms
  by (cases "getData rt (merge_config config) (search_params c (dateRange request)) net pick")
     (simp_all add: contract_task_def new_FPDSRequest_def query_records_def)

text \<open>
  Claim C1, as the code has it. When the parameters of every query pass validation and the
  \<open>getData\<close> of every query settles (it does when the thread count is positive and no
  response body stalls, by \<open>getData_settles\<close>), \<open>searchContracts\<close> is fulfilled: no error
  leaves the call, a query that fails counts for no records, and the result is the
  concatenation, in list order, of the records of the queries that succeed.
\<close>

theorem searchContracts_isolates_failures:
  assumes "\<forall>c \<in> set (contracts request). validateSearchParams (search_params c (dateRange request)) = None"
    and "\<forall>i < length (contracts request).
           \<not> is_Pending (getData rt (merge_config config)
                 (search_params (contracts request ! i) (dateRange request)) (nets i) (picks i))"
  shows "searchContracts rt request config nets picks =
           Resolved (concat (map (\<lambda>(i, c). query_records rt request config (nets i) (picks i) c)
                               (enumerate 0 (contracts request))))"
proof -
  have "\<forall>x \<in> set (enumerate 0 (contracts request)).
          (\<lambda>(i, c). contract_task rt request config (nets i) (picks i) c) x =
          Resolved ((\<lambda>(i, c). query_records rt request config (nets i) (picks i) c) x)"
    using assms by (auto simp: in_set_enumerate_eq contract_task_settled)
  then have "promise_all
      (map (\<lambda>(i, c). contract_task rt request config (nets i) (picks i) c) (enumerate 0 (contracts request))) =
      Resolved (map (\<lambda>(i, c). query_records rt request config (nets i) (picks i) c)
                  (enumerate 0 (contracts request)))"
    by (rule promise_all_resolved)
  then show ?thesis
    by (simp add: searchContracts_def)
qed

definition example_request :: ContractSearchRequest where
  "example_request = \<lparr>contracts = [''A'', ''B''], dateRange = None, metadata = None\<rparr>"

theorem searchContracts_isolates_failures_witness:
  "getData example_runtime DEFAULT_CONFIG (search_params ''A'' None) example_network (\<lambda>step tasks. 0) =
     Rejected (NetworkError ''Network request failed: fetch failed''
       (Some (JsError ''TypeError'' ''fetch failed''))) \<and>
   getData example_runtime DEFAULT_CONFIG (search_params ''B'' None) example_network (\<lambda>step tasks. 0) =
     Resolved (example_page ''B'' ''true'') \<and>
   searchContracts example_runtime example_request None (\<lambda>i. example_network) (\<lambda>i step tasks. 0) =
     Resolved (example_page ''B'' ''true'')"
proof -
  have gA: "getData example_runtime DEFAULT_CONFIG (search_params ''A'' None) example_network (\<lambda>step tasks. 0) =
     Rejected (NetworkError ''Network request failed: fetch failed''
       (Some (JsError ''TypeError'' ''fetch failed'')))"
    by code_simp
  have gB: "getData example_runtime DEFAULT_CONFIG (search_params ''B'' None) example_network (\<lambda>step tasks. 0) =
     Resolved (example_page ''B'' ''true'')"
    by code_simp
  have vA: "validateSearchParams (search_params ''A'' None) = None"
    by code_simp
  have vB: "validateSearchParams (search_params ''B'' None) = None"
    by code_simp
  have valid: "\<forall>c \<in> set (contracts example_request).
      validateSearchParams (search_params c (dateRange example_request)) = None"
    using vA vB by (simp add: example_request_def)
  have settles: "\<forall>i < length (contracts example_request).
      \<not> is_Pending (getData example_runtime (merge_config None)
         (search_params (contracts example_request ! i) (dateRange example_request))
         example_network (\<lambda>step tasks. 0))"
  proof (intro allI impI)
    fix i
    assume "i < length (contracts example_request)"
    then have "i < 2"
      by (simp add: example_request_def)
    then have "i = 0 \<or> i = 1"
      by arith
    then show "\<not> is_Pending (getData example_runtime (merge_config None)
         (search_params (contracts example_request ! i) (dateRange example_request))
         example_network (\<lambda>step tasks. 0))"
      using gA gB by (auto simp: example_request_def merge_config_def)
  qed
  have "searchContracts example_runtime example_request None (\<lambda>i. example_network) (\<lambda>i step tasks. 0) =
      Resolved (concat (map (\<lambda>(i, c). query_records example_runtime example_request None
                                example_network (\<lambda>step tasks. 0) c)
                          (enumerate 0 (contracts example_request))))"
    by (rule searchContracts_isolates_failures [OF valid settles])
  also have "\<dots> = Resolved (example_page ''B'' ''true'')"
    by code_simp
  finally show ?thesis
    using gA gB by simp
qed

text \<open>
  The claim as the specification states it fails: the query for \<open>B\<close> succeeds, the blank
  contract number does not pass validation, and the call is rejected with the
  \<open>ValidationError\<close>: an exception leaves the call and the records of \<open>B\<close> are lost.
\<close>

theorem searchContracts_counterexample:
  "searchContracts example_runtime \<lparr>contracts = [''B'', '' ''], dateRange = None, metadata = None\<rparr> None
     (\<lambda>i. example_network) (\<lambda>i step tasks. 0) =
   Rejected (ValidationError ''PIID'' '' ''
     [''Contract ID cannot be empty'', ''Remove any leading/trailing whitespace''])"
  by code_simp

end
